theory Spec2Isabelle
  imports Main "HOL-Library.Sublist" "HOL-Library.Multiset" "HOL-Library.Char_ord"
    "HOL-Library.List_Lexorder"
begin

section \<open>The API documentation generator \<open>scripts/apidoc.ts\<close>\<close>

text \<open>
  The script walks the TypeDoc reflection tree of the library, builds one record per method
  (humanized name, description, parameters, return type, example text), writes one markdown
  page per module and a navigation manifest. The source holds two revisions of the script:
  one renders every comment through \<open>marked\<close> and writes a companion \<open>.ts\<close> data file per
  module, the other embeds the raw text in the markdown page. Both are embedded here, told
  apart by a \<open>variant\<close>.

  Strings are lists of code units below 256 (\<open>char\<close>): ASCII and Latin-1. The collaborators
  that live outside the script (the documented library \<open>faker\<close>, \<open>JSON.stringify\<close> on the
  library's values, \<open>marked.parse\<close>, prettier's \<open>format\<close>, \<open>localeCompare\<close>) are taken as
  parameters, collected in an environment record.
\<close>

subsection \<open>String primitives of the host language\<close>

abbreviation nl :: string where
  "nl \<equiv> [CHR 0x0A]"

abbreviation sq :: string where
  "sq \<equiv> [CHR 0x27]"

abbreviation dq :: string where
  "dq \<equiv> [CHR 0x22]"

abbreviation isSpace :: "char \<Rightarrow> bool" where
  "isSpace c \<equiv> c = CHR '' ''"

text \<open>White space as \<open>String.prototype.trim\<close> sees it, among the code units below 256.\<close>

definition isWhiteSpace :: "char \<Rightarrow> bool" where
  "isWhiteSpace c = (c \<in> set [CHR 0x09, CHR 0x0A, CHR 0x0B, CHR 0x0C, CHR 0x0D, CHR 0x20, CHR 0xA0])"

definition trimStart :: "string \<Rightarrow> string" where
  "trimStart s = dropWhile isWhiteSpace s"

definition trimEnd :: "string \<Rightarrow> string" where
  "trimEnd s = rev (dropWhile isWhiteSpace (rev s))"

definition trim :: "string \<Rightarrow> string" where
  "trim s = trimEnd (trimStart s)"

text \<open>The character class \<open>[A-Z]\<close>.\<close>

definition isCapital :: "char \<Rightarrow> bool" where
  "isCapital c = (c \<in> set ''ABCDEFGHIJKLMNOPQRSTUVWXYZ'')"

text \<open>The letters that have two cases, among the code units below 256: the ASCII letters
  and the Latin-1 letters \<open>U+00C0\<close> to \<open>U+00DE\<close> (without the sign \<open>U+00D7\<close>) with their
  small forms \<open>U+00E0\<close> to \<open>U+00FE\<close> (without the sign \<open>U+00F7\<close>), in matching order.\<close>

abbreviation capitalLetters :: string where
  "capitalLetters \<equiv>
     ''ABCDEFGHIJKLMNOPQRSTUVWXYZ''
     @ [CHR 0xC0, CHR 0xC1, CHR 0xC2, CHR 0xC3, CHR 0xC4, CHR 0xC5, CHR 0xC6, CHR 0xC7,
        CHR 0xC8, CHR 0xC9, CHR 0xCA, CHR 0xCB, CHR 0xCC, CHR 0xCD, CHR 0xCE, CHR 0xCF,
        CHR 0xD0, CHR 0xD1, CHR 0xD2, CHR 0xD3, CHR 0xD4, CHR 0xD5, CHR 0xD6, CHR 0xD8,
        CHR 0xD9, CHR 0xDA, CHR 0xDB, CHR 0xDC, CHR 0xDD, CHR 0xDE]"

abbreviation smallLetters :: string where
  "smallLetters \<equiv>
     ''abcdefghijklmnopqrstuvwxyz''
     @ [CHR 0xE0, CHR 0xE1, CHR 0xE2, CHR 0xE3, CHR 0xE4, CHR 0xE5, CHR 0xE6, CHR 0xE7,
        CHR 0xE8, CHR 0xE9, CHR 0xEA, CHR 0xEB, CHR 0xEC, CHR 0xED, CHR 0xEE, CHR 0xEF,
        CHR 0xF0, CHR 0xF1, CHR 0xF2, CHR 0xF3, CHR 0xF4, CHR 0xF5, CHR 0xF6, CHR 0xF8,
        CHR 0xF9, CHR 0xFA, CHR 0xFB, CHR 0xFC, CHR 0xFD, CHR 0xFE]"

text \<open>\<open>toLowerCase\<close> on one code unit: a capital letter gives its small form, every other code
  unit stays.\<close>

definition toLowerCase :: "char \<Rightarrow> char" where
  "toLowerCase c =
     (case map_of (zip capitalLetters smallLetters) c of
        Some l \<Rightarrow> l
      | None \<Rightarrow> c)"

text \<open>\<open>toUpperCase\<close> on one code unit: a small letter gives its capital; the sharp s
  \<open>U+00DF\<close> gives the two letters \<open>SS\<close>; the other code units stay. Two code units below
  256 have a capital that is not below 256 (\<open>U+00B5\<close> gives \<open>U+039C\<close>, \<open>U+00FF\<close> gives
  \<open>U+0178\<close>): strings of \<open>char\<close> cannot hold it, \<open>capitalInModel\<close> tells them apart, and
  what is stated about the capital of a first character leaves them out.\<close>

definition toUpperCase :: "char \<Rightarrow> string" where
  "toUpperCase c =
     (if c = CHR 0xDF then ''SS''
      else case map_of (zip smallLetters capitalLetters) c of
             Some u \<Rightarrow> [u]
           | None \<Rightarrow> [c])"

definition capitalInModel :: "char \<Rightarrow> bool" where
  "capitalInModel c = (c \<noteq> CHR 0xB5 \<and> c \<noteq> CHR 0xFF)"

text \<open>\<open>Array.prototype.join\<close>.\<close>

fun join :: "string \<Rightarrow> string list \<Rightarrow> string" where
  "join sep [] = []"
| "join sep [x] = x"
| "join sep (x # y # ys) = x @ sep @ join sep (y # ys)"

text \<open>\<open>s.replace(/([A-Z]+)/g, ' $1')\<close>: the scan goes left to right; at a capital letter the
  greedy match takes the whole run of capitals and the replacement puts one space before it.\<close>

function spaceBeforeCapitals :: "string \<Rightarrow> string" where
  "spaceBeforeCapitals [] = []"
| "spaceBeforeCapitals (c # cs) =
     (if isCapital c
      then CHR '' '' # c # takeWhile isCapital cs @ spaceBeforeCapitals (dropWhile isCapital cs)
      else c # spaceBeforeCapitals cs)"
  by pat_completeness auto
termination
  by (relation "measure length") (auto simp: less_Suc_eq_le length_dropWhile_le)

text \<open>\<open>s.replace(/\n +/g, '\n')\<close>: every newline that is followed by at least one space
  loses the spaces that follow it.\<close>

function stripIndent :: "string \<Rightarrow> string" where
  "stripIndent [] = []"
| "stripIndent (c # cs) =
     (if c = CHR 0x0A \<and> takeWhile isSpace cs \<noteq> []
      then c # stripIndent (dropWhile isSpace cs)
      else c # stripIndent cs)"
  by pat_completeness auto
termination
  by (relation "measure length") (auto simp: less_Suc_eq_le length_dropWhile_le)

text \<open>\<open>s.replace(/\n +/, '\n')\<close>, without the global flag: only the first match is replaced.\<close>

fun stripIndentFirst :: "string \<Rightarrow> string" where
  "stripIndentFirst [] = []"
| "stripIndentFirst (c # cs) =
     (if c = CHR 0x0A \<and> takeWhile isSpace cs \<noteq> []
      then c # dropWhile isSpace cs
      else c # stripIndentFirst cs)"

subsection \<open>The reflection tree\<close>

text \<open>The parts of TypeDoc's reflections that the script reads. An optional field is an
  \<open>option\<close>; a type is kept as the text its \<open>toString()\<close> gives.\<close>

record commentTag =
  tag_tagName :: string
  tag_text :: string

record comment =
  c_shortText :: string
  c_text :: string
  c_tags :: "commentTag list"

record typeParameter =
  tp_name :: string
  tp_comment :: "comment option"

record parameter =
  p_name :: string
  p_type :: string
  p_defaultValue :: "string option"
  p_comment :: "comment option"

record signature =
  s_typeParameters :: "typeParameter list option"
  s_parameters :: "parameter list option"
  s_type :: string
  s_comment :: "comment option"

record methodReflection =
  m_name :: string
  m_signatures :: "signature list"

text \<open>A class of the namespace, with its children of kind \<open>Method\<close>.\<close>

record module =
  mod_name :: string
  mod_methods :: "methodReflection list"
  mod_comment :: "comment option"

record namespace =
  ns_classes :: "module list"

record project =
  pr_namespaces :: "namespace list"

subsection \<open>Comment blocks\<close>

text \<open>\<open>a || b\<close> on strings: the empty string is falsy.\<close>

definition orElse :: "string \<Rightarrow> string \<Rightarrow> string" where
  "orElse a b = (if a \<noteq> [] then a else b)"

definition toBlock :: "comment option \<Rightarrow> string" where
  "toBlock cm =
     (case cm of
        None \<Rightarrow> ''Missing''
      | Some c \<Rightarrow> orElse (trim (c_shortText c)) ''Missing'')
     @ (case cm of
          None \<Rightarrow> []
        | Some c \<Rightarrow> if c_text c \<noteq> [] then nl @ nl @ c_text c else [])"

subsection \<open>Method names\<close>

definition prettyMethodName :: "string \<Rightarrow> string" where
  "prettyMethodName methodName =
     concat (map toUpperCase (take 1 methodName)) @ spaceBeforeCapitals (drop 1 methodName)"

subsection \<open>The environment\<close>

text \<open>What a call into the documented library, or \<open>JSON.stringify\<close> on its result, can do:
  throw, or return.\<close>

datatype 'a outcome = Throws | Returns 'a

datatype parser = Markdown | Typescript | Babel

text \<open>
  \<^item> \<open>fakerCall m f\<close> is \<open>faker[m][f]()\<close> evaluated right after \<open>faker.seed(0)\<close>; a missing
    module or method is the \<open>TypeError\<close> of the lookup, hence \<open>Throws\<close>;
  \<^item> \<open>jsonStringify v\<close> is \<open>JSON.stringify(v)\<close>, which throws, or returns \<open>undefined\<close>
    (\<open>None\<close>) or a text;
  \<^item> \<open>markedParse\<close> is \<open>marked.parse\<close>, \<open>prettierFormat\<close> is prettier's \<open>format\<close> with the
    given parser;
  \<^item> \<open>collationKey\<close> stands for \<open>localeCompare\<close>: \<open>a.localeCompare(b)\<close> orders two strings
    as their collation keys are ordered.
\<close>

record ('v, 'k) env =
  fakerCall :: "string \<Rightarrow> string \<Rightarrow> 'v outcome"
  jsonStringify :: "'v \<Rightarrow> string option outcome"
  markedParse :: "string \<Rightarrow> string"
  prettierFormat :: "parser \<Rightarrow> string \<Rightarrow> string"
  collationKey :: "string \<Rightarrow> 'k"

text \<open>The two revisions of the script.\<close>

datatype variant = Prerendered | Plain

text \<open>How a comment block is stored in a record: rendered by \<open>marked\<close>, or as it is.\<close>

definition renderBlock :: "variant \<Rightarrow> ('v, 'k) env \<Rightarrow> string \<Rightarrow> string" where
  "renderBlock v e s = (case v of Prerendered \<Rightarrow> markedParse e s | Plain \<Rightarrow> s)"

subsection \<open>Effects\<close>

datatype target = OutputJson | OutputFile string | DocsApiPages

datatype event =
    ConsoleLog string
  | ConsoleDebug string
  | FakerSeed nat
  | FakerCall string string
  | GenerateJson target
  | WriteFileSync target string

text \<open>A property read of \<open>undefined\<close>.\<close>

datatype error = TypeError

subsection \<open>Method records\<close>

record methodParameter =
  mp_name :: string
  mp_type :: "string option"
  mp_default :: "string option"
  mp_description :: string

record methodDoc =
  md_name :: string
  md_description :: string
  md_parameters :: "methodParameter list"
  md_returns :: string
  md_examples :: string

subsection \<open>Signature extraction\<close>

text \<open>\<open>render\<close> is what the revision at hand does to a comment block before storing it.\<close>

definition typeParameterDoc :: "(string \<Rightarrow> string) \<Rightarrow> typeParameter \<Rightarrow> methodParameter" where
  "typeParameterDoc render parameter =
     \<lparr>mp_name = tp_name parameter, mp_type = None, mp_default = None,
      mp_description = render (toBlock (tp_comment parameter))\<rparr>"

text \<open>The body of the loop over the parameters: a parameter counts as required when it
  has no default value; the text pushed to \<open>signatureParameters\<close>; the record pushed to
  \<open>parameters\<close>.\<close>

definition parameterRequired :: "parameter \<Rightarrow> bool" where
  "parameterRequired parameter = (p_defaultValue parameter = None)"

definition parameterSignature :: "parameter \<Rightarrow> string" where
  "parameterSignature parameter =
     (let parameterName = p_name parameter @ (if parameterRequired parameter then ''?'' else []);
          parameterType = p_type parameter;
          parameterDefaultSignatureText =
            (case p_defaultValue parameter of None \<Rightarrow> [] | Some d \<Rightarrow> '' = '' @ d)
      in parameterName @ '': '' @ parameterType @ parameterDefaultSignatureText)"

definition parameterDoc :: "(string \<Rightarrow> string) \<Rightarrow> parameter \<Rightarrow> methodParameter" where
  "parameterDoc render parameter =
     \<lparr>mp_name = p_name parameter, mp_type = Some (p_type parameter),
      mp_default = p_defaultValue parameter,
      mp_description = render (toBlock (p_comment parameter))\<rparr>"

text \<open>The loop itself, with its three variables: \<open>requiresArgs\<close>, \<open>signatureParameters\<close>
  and \<open>parameters\<close>.\<close>

fun parametersLoop ::
  "(string \<Rightarrow> string) \<Rightarrow> nat \<Rightarrow> parameter list
    \<Rightarrow> bool \<times> string list \<times> methodParameter list
    \<Rightarrow> bool \<times> string list \<times> methodParameter list" where
  "parametersLoop render index [] st = st"
| "parametersLoop render index (parameter # rest) (requiresArgs, signatureParameters, parameters) =
     parametersLoop render (index + 1) rest
       (if index = 0 then parameterRequired parameter else requiresArgs,
        signatureParameters @ [parameterSignature parameter],
        parameters @ [parameterDoc render parameter])"

text \<open>\<open>signature.typeParameters || []\<close>, and
  \<open>signature.parameters && index < signature.parameters.length\<close>: no list, no iteration.\<close>

definition typeParametersOf :: "signature \<Rightarrow> typeParameter list" where
  "typeParametersOf sg = (case s_typeParameters sg of None \<Rightarrow> [] | Some ts \<Rightarrow> ts)"

definition parametersOf :: "signature \<Rightarrow> parameter list" where
  "parametersOf sg = (case s_parameters sg of None \<Rightarrow> [] | Some ps \<Rightarrow> ps)"

text \<open>The state of the three variables after both loops.\<close>

definition extractParameters ::
  "(string \<Rightarrow> string) \<Rightarrow> signature \<Rightarrow> bool \<times> string list \<times> methodParameter list" where
  "extractParameters render sg =
     parametersLoop render 0 (parametersOf sg)
       (False, [], map (typeParameterDoc render) (typeParametersOf sg))"

subsection \<open>Example synthesis\<close>

definition signatureLine :: "string \<Rightarrow> string \<Rightarrow> signature \<Rightarrow> string list \<Rightarrow> string" where
  "signatureLine lowerModuleName methodName sg signatureParameters =
     (let signatureTypeParameters = map tp_name (typeParametersOf sg);
          signatureTypeParametersString =
            (if length signatureTypeParameters \<noteq> 0
             then ''<'' @ join '', '' signatureTypeParameters @ ''>'' else []);
          signatureParametersString = join '', '' signatureParameters
      in ''faker.'' @ lowerModuleName @ ''.'' @ methodName @ signatureTypeParametersString
         @ ''('' @ signatureParametersString @ ''): '' @ s_type sg @ nl)"

definition truncateExample :: "string \<Rightarrow> string" where
  "truncateExample example = (if length example > 50 then take 47 example @ ''...'' else example)"

text \<open>The body of the \<open>try\<close>: \<open>None\<close> when an exception reached the empty \<open>catch\<close>, else the
  text appended to \<open>examples\<close>. Reading \<open>example.length\<close> of \<open>undefined\<close> throws too.\<close>

definition exampleCall :: "('v, 'k) env \<Rightarrow> string \<Rightarrow> string \<Rightarrow> string option" where
  "exampleCall e lowerModuleName methodName =
     (case fakerCall e lowerModuleName methodName of
        Throws \<Rightarrow> None
      | Returns result \<Rightarrow>
          (case jsonStringify e result of
             Throws \<Rightarrow> None
           | Returns None \<Rightarrow> None
           | Returns (Some serialized) \<Rightarrow>
               (let example = truncateExample serialized
                in Some (''faker.'' @ lowerModuleName @ ''.'' @ methodName @ ''()''
                         @ (if example \<noteq> [] then '' // => '' @ example else []) @ nl))))"

definition exampleTags :: "signature \<Rightarrow> string list" where
  "exampleTags sg =
     (case s_comment sg of
        None \<Rightarrow> []
      | Some c \<Rightarrow> map (\<lambda>tag. trimEnd (tag_text tag))
                    (filter (\<lambda>tag. tag_tagName tag = ''example'') (c_tags c)))"

definition exampleTagsText :: "signature \<Rightarrow> string" where
  "exampleTagsText sg =
     (if length (exampleTags sg) \<noteq> 0 then trim (join nl (exampleTags sg)) @ nl else [])"

text \<open>The variable \<open>examples\<close> when the method record is pushed.\<close>

definition composeExamples ::
  "('v, 'k) env \<Rightarrow> string \<Rightarrow> string \<Rightarrow> signature \<Rightarrow> bool \<Rightarrow> string list \<Rightarrow> string" where
  "composeExamples e lowerModuleName methodName sg requiresArgs signatureParameters =
     signatureLine lowerModuleName methodName sg signatureParameters
     @ (if \<not> requiresArgs
        then (case exampleCall e lowerModuleName methodName of None \<Rightarrow> [] | Some line \<Rightarrow> line)
        else [])
     @ exampleTagsText sg"

definition renderExamples :: "variant \<Rightarrow> ('v, 'k) env \<Rightarrow> string \<Rightarrow> string" where
  "renderExamples v e examples =
     (case v of
        Prerendered \<Rightarrow> markedParse e (''```ts'' @ nl @ examples @ nl @ ''```'')
      | Plain \<Rightarrow> examples)"

subsection \<open>One method\<close>

text \<open>The events of one iteration of the method loop, and the record it pushes.
  \<open>method.signatures[0]\<close> of a method without signature is \<open>undefined\<close>, and the read of
  its \<open>typeParameters\<close> throws; nothing catches it.\<close>

definition documentMethod ::
  "variant \<Rightarrow> ('v, 'k) env \<Rightarrow> string \<Rightarrow> methodReflection \<Rightarrow> event list \<times> (error + methodDoc)" where
  "documentMethod v e lowerModuleName m =
     (let methodName = m_name m;
          debug = ConsoleDebug (''- method '' @ prettyMethodName methodName)
      in case m_signatures m of
           [] \<Rightarrow> ([debug], Inl TypeError)
         | sg # _ \<Rightarrow>
             (case extractParameters (renderBlock v e) sg of
                (requiresArgs, signatureParameters, parameters) \<Rightarrow>
                  ([debug, FakerSeed 0]
                   @ (if \<not> requiresArgs then [FakerCall lowerModuleName methodName] else []),
                   Inr \<lparr>md_name = prettyMethodName methodName,
                        md_description = renderBlock v e (toBlock (s_comment sg)),
                        md_parameters = parameters,
                        md_returns = s_type sg,
                        md_examples =
                          renderExamples v e
                            (composeExamples e lowerModuleName methodName sg requiresArgs
                               signatureParameters)\<rparr>)))"

fun documentMethods ::
  "variant \<Rightarrow> ('v, 'k) env \<Rightarrow> string \<Rightarrow> methodReflection list \<Rightarrow> event list \<times> (error + methodDoc list)" where
  "documentMethods v e lowerModuleName [] = ([], Inr [])"
| "documentMethods v e lowerModuleName (m # ms) =
     (case documentMethod v e lowerModuleName m of
        (evs, Inl err) \<Rightarrow> (evs, Inl err)
      | (evs, Inr doc) \<Rightarrow>
          (case documentMethods v e lowerModuleName ms of
             (evs', Inl err) \<Rightarrow> (evs @ evs', Inl err)
           | (evs', Inr docs) \<Rightarrow> (evs @ evs', Inr (doc # docs))))"

subsection \<open>\<open>JSON.stringify\<close> on the records of the script\<close>

datatype json = JString string | JArray "json list" | JObject "(string \<times> json) list"

definition hexDigit :: "nat \<Rightarrow> char" where
  "hexDigit n = ''0123456789abcdef'' ! (n mod 16)"

text \<open>\<open>QuoteJSONString\<close>, one code unit at a time.\<close>

definition quoteJSONChar :: "char \<Rightarrow> string" where
  "quoteJSONChar c =
     (if c = CHR 0x08 then [CHR 0x5C, CHR ''b'']
      else if c = CHR 0x09 then [CHR 0x5C, CHR ''t'']
      else if c = CHR 0x0A then [CHR 0x5C, CHR ''n'']
      else if c = CHR 0x0C then [CHR 0x5C, CHR ''f'']
      else if c = CHR 0x0D then [CHR 0x5C, CHR ''r'']
      else if c = CHR 0x22 then [CHR 0x5C, CHR 0x22]
      else if c = CHR 0x5C then [CHR 0x5C, CHR 0x5C]
      else if (of_char c :: nat) < 0x20
        then [CHR 0x5C, CHR ''u'', CHR ''0'', CHR ''0'',
              hexDigit (of_char c div 16), hexDigit (of_char c)]
      else [c])"

definition quoteJSONString :: "string \<Rightarrow> string" where
  "quoteJSONString s = [CHR 0x22] @ concat (map quoteJSONChar s) @ [CHR 0x22]"

text \<open>\<open>SerializeJSONProperty\<close> with the gap (the indentation unit, empty without the third
  argument) and the current indentation.\<close>

fun serializeJSON :: "string \<Rightarrow> string \<Rightarrow> json \<Rightarrow> string" where
  "serializeJSON gap indent (JString s) = quoteJSONString s"
| "serializeJSON gap indent (JArray xs) =
     (let stepback = indent;
          indent' = indent @ gap;
          partial = map (serializeJSON gap indent') xs
      in if partial = [] then ''[]''
         else if gap = [] then ''['' @ join '','' partial @ '']''
         else ''['' @ nl @ indent' @ join ('','' @ nl @ indent') partial @ nl @ stepback @ '']'')"
| "serializeJSON gap indent (JObject kvs) =
     (let stepback = indent;
          indent' = indent @ gap;
          partial = map (\<lambda>kv. quoteJSONString (fst kv) @ '':''
                                @ (if gap \<noteq> [] then '' '' else [])
                                @ serializeJSON gap indent' (snd kv)) kvs
      in if partial = [] then ''{}''
         else if gap = [] then ''{'' @ join '','' partial @ ''}''
         else ''{'' @ nl @ indent' @ join ('','' @ nl @ indent') partial @ nl @ stepback @ ''}'')"

text \<open>A property whose value is \<open>undefined\<close> is left out.\<close>

definition methodParameterJson :: "methodParameter \<Rightarrow> json" where
  "methodParameterJson p =
     JObject ([(''name'', JString (mp_name p))]
              @ (case mp_type p of None \<Rightarrow> [] | Some t \<Rightarrow> [(''type'', JString t)])
              @ (case mp_default p of None \<Rightarrow> [] | Some d \<Rightarrow> [(''default'', JString d)])
              @ [(''description'', JString (mp_description p))])"

definition methodDocJson :: "methodDoc \<Rightarrow> json" where
  "methodDocJson d =
     JObject [(''name'', JString (md_name d)),
              (''description'', JString (md_description d)),
              (''parameters'', JArray (map methodParameterJson (md_parameters d))),
              (''returns'', JString (md_returns d)),
              (''examples'', JString (md_examples d))]"

record page =
  pg_text :: string
  pg_link :: string

definition pageJson :: "page \<Rightarrow> json" where
  "pageJson p = JObject [(''text'', JString (pg_text p)), (''link'', JString (pg_link p))]"

subsection \<open>Pages\<close>

definition scriptCommand :: string where
  "scriptCommand = ''pnpm run generate:api-docs''"

text \<open>The template of the markdown page, before the indentation is stripped: the script
  block, where the two revisions differ in the source of the methodReflection list; the title; the two
  comment lines that mark the file as generated; the module's comment block; the component.\<close>

definition markdownScript :: "variant \<Rightarrow> string \<Rightarrow> methodDoc list \<Rightarrow> string" where
  "markdownScript v lowerModuleName methods =
     nl @ ''      <script setup>''
     @ nl @ ''      import ApiDocsMethod from '../.vitepress/components/api-docs/method.vue'' @ sq
     @ (case v of
          Prerendered \<Rightarrow>
            nl @ ''      import { '' @ lowerModuleName @ '' } from './'' @ lowerModuleName @ sq
            @ nl @ ''      import { ref } from 'vue';''
            @ nl
            @ nl @ ''      const methods = ref('' @ lowerModuleName @ '');''
        | Plain \<Rightarrow>
            nl @ ''      import { ref } from 'vue';''
            @ nl
            @ nl @ ''      const methods = ref(''
                 @ serializeJSON [] [] (JArray (map methodDocJson methods)) @ '');'')
     @ nl @ ''      </script>''"

definition markdownGeneratedLines :: string where
  "markdownGeneratedLines =
     nl @ ''      <!-- This file is automatically generated. -->''
     @ nl @ ''      <!-- Run '' @ sq @ scriptCommand @ sq @ '' to update -->''"

definition markdownTemplate ::
  "variant \<Rightarrow> string \<Rightarrow> string \<Rightarrow> methodDoc list \<Rightarrow> comment option \<Rightarrow> string" where
  "markdownTemplate v moduleName lowerModuleName methods cm =
     markdownScript v lowerModuleName methods
     @ nl
     @ nl @ ''      # '' @ moduleName
     @ nl
     @ markdownGeneratedLines
     @ nl
     @ nl @ ''      ::: v-pre''
     @ nl
     @ nl @ ''      '' @ toBlock cm
     @ nl
     @ nl @ ''      :::''
     @ nl
     @ nl @ ''      <ApiDocsMethod v-for='' @ dq @ ''method of methods'' @ dq
          @ '' v-bind:key='' @ dq @ ''method.name'' @ dq
          @ '' :method='' @ dq @ ''method'' @ dq @ '' />''
     @ nl @ ''      ''"

definition markdownContent ::
  "variant \<Rightarrow> string \<Rightarrow> string \<Rightarrow> methodDoc list \<Rightarrow> comment option \<Rightarrow> string" where
  "markdownContent v moduleName lowerModuleName methods cm =
     stripIndent (markdownTemplate v moduleName lowerModuleName methods cm)"

definition contentTs :: "string \<Rightarrow> methodDoc list \<Rightarrow> string" where
  "contentTs lowerModuleName methods =
     nl @ ''    import type { Method } from '../.vitepress/components/api-docs/method';''
     @ nl
     @ nl @ ''    export const '' @ lowerModuleName @ '': Method[] = ''
          @ serializeJSON ''  '' [] (JArray (map methodDocJson methods))"

definition apiPagesContent :: "page list \<Rightarrow> string" where
  "apiPagesContent modulesPages =
     stripIndentFirst
       (nl @ ''    // This file is automatically generated.''
        @ nl @ ''    // Run '' @ sq @ scriptCommand @ sq @ '' to update''
        @ nl @ ''    export const apiPages = ''
             @ serializeJSON [] [] (JArray (map pageJson modulesPages)) @ '';''
        @ nl @ ''    '')"

subsection \<open>One module\<close>

definition moduleNameOf :: "module \<Rightarrow> string" where
  "moduleNameOf md = remove1 (CHR ''_'') (mod_name md)"

definition lowerModuleNameOf :: "module \<Rightarrow> string" where
  "lowerModuleNameOf md =
     map toLowerCase (take 1 (moduleNameOf md)) @ drop 1 (moduleNameOf md)"

definition modulePage :: "module \<Rightarrow> page" where
  "modulePage md =
     \<lparr>pg_text = moduleNameOf md, pg_link = ''/api/'' @ lowerModuleNameOf md @ ''.html''\<rparr>"

definition documentModule ::
  "variant \<Rightarrow> ('v, 'k) env \<Rightarrow> module \<Rightarrow> event list \<times> (error + page)" where
  "documentModule v e md =
     (let moduleName = moduleNameOf md;
          lowerModuleName = lowerModuleNameOf md;
          log = ConsoleLog (''Processing Module '' @ moduleName)
      in case documentMethods v e lowerModuleName (mod_methods md) of
           (evs, Inl err) \<Rightarrow> (log # evs, Inl err)
         | (evs, Inr methods) \<Rightarrow>
             (log # evs
              @ [WriteFileSync (OutputFile (lowerModuleName @ ''.md''))
                   (prettierFormat e Markdown
                      (markdownContent v moduleName lowerModuleName methods (mod_comment md)))]
              @ (case v of
                   Prerendered \<Rightarrow>
                     [WriteFileSync (OutputFile (lowerModuleName @ ''.ts''))
                        (prettierFormat e Typescript (contentTs lowerModuleName methods))]
                 | Plain \<Rightarrow> []),
              Inr (modulePage md)))"

fun documentModules ::
  "variant \<Rightarrow> ('v, 'k) env \<Rightarrow> module list \<Rightarrow> event list \<times> (error + page list)" where
  "documentModules v e [] = ([], Inr [])"
| "documentModules v e (md # mds) =
     (case documentModule v e md of
        (evs, Inl err) \<Rightarrow> (evs, Inl err)
      | (evs, Inr pg) \<Rightarrow>
          (case documentModules v e mds of
             (evs', Inl err) \<Rightarrow> (evs @ evs', Inl err)
           | (evs', Inr pgs) \<Rightarrow> (evs @ evs', Inr (pg # pgs))))"

subsection \<open>The pipeline\<close>

definition fixedPages :: "page list" where
  "fixedPages =
     [\<lparr>pg_text = ''Fake'', pg_link = ''/api/fake.html''\<rparr>,
      \<lparr>pg_text = ''Localization'', pg_link = ''/api/localization.html''\<rparr>]"

text \<open>\<open>modulesPages.sort((a, b) => a.text.localeCompare(b.text))\<close>: a stable sort by the
  collation key of the title.\<close>

definition sortPages :: "('v, 'k::linorder) env \<Rightarrow> page list \<Rightarrow> page list" where
  "sortPages e modulesPages = sort_key (\<lambda>p. collationKey e (pg_text p)) modulesPages"

text \<open>\<open>build\<close>, given what \<open>app.convert()\<close> returned: the events in order, and whether the
  run ended with an uncaught error. The first namespace of a project without namespace is
  \<open>undefined\<close>, and the call on it throws.\<close>

definition build ::
  "variant \<Rightarrow> ('v, 'k::linorder) env \<Rightarrow> project option \<Rightarrow> event list \<times> (error + unit)" where
  "build v e converted =
     (case converted of
        None \<Rightarrow> ([], Inr ())
      | Some project \<Rightarrow>
          (case pr_namespaces project of
             [] \<Rightarrow> ([GenerateJson OutputJson], Inl TypeError)
           | ns # _ \<Rightarrow>
               (case documentModules v e (ns_classes ns) of
                  (evs, Inl err) \<Rightarrow> (GenerateJson OutputJson # evs, Inl err)
                | (evs, Inr pages) \<Rightarrow>
                    (GenerateJson OutputJson # evs
                     @ [ConsoleLog ''Updating api-pages.mjs'',
                        WriteFileSync DocsApiPages
                          (prettierFormat e Babel
                             (apiPagesContent (sortPages e (fixedPages @ pages))))],
                     Inr ()))))"

subsection \<open>Vocabulary of the statements\<close>

text \<open>The value of \<open>requiresArgs\<close> after the loop, read off the parameter list.\<close>

definition firstRequired :: "signature \<Rightarrow> bool" where
  "firstRequired sg = (case parametersOf sg of [] \<Rightarrow> False | p # _ \<Rightarrow> parameterRequired p)"

text \<open>The scan of \<open>spaceBeforeCapitals\<close> one code unit at a time, remembering whether the
  code unit before was a capital.\<close>

fun spacedFrom :: "bool \<Rightarrow> string \<Rightarrow> string" where
  "spacedFrom prev [] = []"
| "spacedFrom prev (c # cs) =
     (if isCapital c \<and> \<not> prev then [CHR '' '', c] else [c]) @ spacedFrom (isCapital c) cs"

text \<open>The display name as the specification words it, for a given notion \<open>upper\<close> of
  uppercase letter: position \<open>i\<close> of the remainder begins a run when it holds such a letter
  and the position before it, if there is one, does not; the first character is
  capitalized, one space goes before each run of the remainder, and every character of the
  remainder is kept as it is.\<close>

definition startsRun :: "(char \<Rightarrow> bool) \<Rightarrow> string \<Rightarrow> nat \<Rightarrow> bool" where
  "startsRun upper s i = (upper (s ! i) \<and> (i = 0 \<or> \<not> upper (s ! (i - 1))))"

definition humanizedName :: "(char \<Rightarrow> bool) \<Rightarrow> string \<Rightarrow> string" where
  "humanizedName upper methodName =
     (case methodName of
        [] \<Rightarrow> []
      | first # remainder \<Rightarrow>
          toUpperCase first
          @ concat (map (\<lambda>i. (if startsRun upper remainder i then '' '' else []) @ [remainder ! i])
                       [0..<length remainder]))"

text \<open>An uppercase letter is a code unit that has a small form of its own: the letters
  \<open>A\<close> to \<open>Z\<close> and the Latin-1 capitals.\<close>

definition isUpperCaseLetter :: "char \<Rightarrow> bool" where
  "isUpperCaseLetter c = (toLowerCase c \<noteq> c)"

text \<open>An event without the content of the file it writes.\<close>

definition withoutContent :: "event \<Rightarrow> event" where
  "withoutContent ev = (case ev of WriteFileSync t c \<Rightarrow> WriteFileSync t [] | _ \<Rightarrow> ev)"

text \<open>Whether a step ended with an error, whatever it returned otherwise.\<close>

fun finished :: "error + 'a \<Rightarrow> error + unit" where
  "finished (Inl err) = Inl err"
| "finished (Inr _) = Inr ()"

text \<open>The comment lines as they stand in the markdown page and in the manifest once the
  indentation is stripped.\<close>

definition markdownBanner :: string where
  "markdownBanner =
     ''<!-- This file is automatically generated. -->'' @ nl
     @ ''<!-- Run '' @ sq @ scriptCommand @ sq @ '' to update -->''"

definition scriptBanner :: string where
  "scriptBanner =
     ''// This file is automatically generated.'' @ nl
     @ ''    // Run '' @ sq @ scriptCommand @ sq @ '' to update''"

text \<open>A module has been processed to its end in a list of events: every one of its
  methods has its record, in order, and the page of the module has been written from
  these records (and the data file, in the revision that renders ahead).\<close>

definition pageWritten :: "variant \<Rightarrow> ('v, 'k) env \<Rightarrow> module \<Rightarrow> event list \<Rightarrow> bool" where
  "pageWritten v e md evs =
     (\<exists>docs.
        list_all2 (\<lambda>m doc. snd (documentMethod v e (lowerModuleNameOf md) m) = Inr doc)
          (mod_methods md) docs
        \<and> WriteFileSync (OutputFile (lowerModuleNameOf md @ ''.md''))
             (prettierFormat e Markdown
                (markdownContent v (moduleNameOf md) (lowerModuleNameOf md) docs (mod_comment md)))
            \<in> set evs
        \<and> (v = Prerendered \<longrightarrow>
              WriteFileSync (OutputFile (lowerModuleNameOf md @ ''.ts''))
                (prettierFormat e Typescript (contentTs (lowerModuleNameOf md) docs))
               \<in> set evs))"

subsection \<open>A small library to run the pipeline on\<close>

text \<open>An environment whose library throws on \<open>zipCode\<close> and returns a sixty-character
  string otherwise, with collaborators that leave their input as it is and titles ordered
  by code unit.\<close>

definition sampleEnv :: "(string, string) env" where
  "sampleEnv =
     \<lparr>fakerCall = (\<lambda>moduleName methodName.
          if methodName = ''zipCode'' then Throws
          else Returns ''63 Main Street, Apartment 4, West Springfield, Massachusetts''),
      jsonStringify = (\<lambda>result. Returns (Some (quoteJSONString result))),
      markedParse = (\<lambda>s. s),
      prettierFormat = (\<lambda>parser s. s),
      collationKey = (\<lambda>s. s)\<rparr>"

text \<open>\<open>zipCode(format: string = '#####', state: string)\<close>, \<open>streetAddress()\<close> and
  \<open>cityPrefix(index: number)\<close>.\<close>

definition zipCodeSignature :: signature where
  "zipCodeSignature =
     \<lparr>s_typeParameters = None,
      s_parameters = Some
        [\<lparr>p_name = ''format'', p_type = ''string'', p_defaultValue = Some (sq @ ''#####'' @ sq),
          p_comment = None\<rparr>,
         \<lparr>p_name = ''state'', p_type = ''string'', p_defaultValue = None,
          p_comment = Some \<lparr>c_shortText = ''The state. '', c_text = [], c_tags = []\<rparr>\<rparr>],
      s_type = ''string'',
      s_comment = Some
        \<lparr>c_shortText = ''Generates a zip code.'', c_text = [],
         c_tags = [\<lparr>tag_tagName = ''example'', tag_text = ''faker.address.zipCode() // 12345 ''\<rparr>]\<rparr>\<rparr>"

definition zipCodeMethod :: methodReflection where
  "zipCodeMethod = \<lparr>m_name = ''zipCode'', m_signatures = [zipCodeSignature]\<rparr>"

definition streetAddressSignature :: signature where
  "streetAddressSignature =
     \<lparr>s_typeParameters = None, s_parameters = None, s_type = ''string'', s_comment = None\<rparr>"

definition streetAddressMethod :: methodReflection where
  "streetAddressMethod = \<lparr>m_name = ''streetAddress'', m_signatures = [streetAddressSignature]\<rparr>"

definition cityPrefixSignature :: signature where
  "cityPrefixSignature =
     \<lparr>s_typeParameters = None,
      s_parameters = Some
        [\<lparr>p_name = ''index'', p_type = ''number'', p_defaultValue = None, p_comment = None\<rparr>],
      s_type = ''string'',
      s_comment = Some \<lparr>c_shortText = ''A city prefix.'', c_text = [], c_tags = []\<rparr>\<rparr>"

definition cityPrefixMethod :: methodReflection where
  "cityPrefixMethod = \<lparr>m_name = ''cityPrefix'', m_signatures = [cityPrefixSignature]\<rparr>"

text \<open>A project with two modules that have no method: the pages and the manifest stay
  short.\<close>

definition sampleProject :: project where
  "sampleProject =
     \<lparr>pr_namespaces =
        [\<lparr>ns_classes =
            [\<lparr>mod_name = ''Word'', mod_methods = [], mod_comment = None\<rparr>,
             \<lparr>mod_name = ''Address'', mod_methods = [], mod_comment = None\<rparr>]\<rparr>]\<rparr>"

text \<open>A project whose first module holds \<open>zipCode\<close>, on which the library throws,
  followed by \<open>streetAddress\<close>, and whose second module holds \<open>cityPrefix\<close>.\<close>

definition addressModule :: module where
  "addressModule =
     \<lparr>mod_name = ''Address'', mod_methods = [zipCodeMethod, streetAddressMethod],
      mod_comment = None\<rparr>"

definition wordModule :: module where
  "wordModule = \<lparr>mod_name = ''Word'', mod_methods = [cityPrefixMethod], mod_comment = None\<rparr>"

definition libraryProject :: project where
  "libraryProject = \<lparr>pr_namespaces = [\<lparr>ns_classes = [addressModule, wordModule]\<rparr>]\<rparr>"


section \<open>Properties\<close>

subsection \<open>The parameter loop in closed form\<close>

lemma parametersLoop_later:
  "parametersLoop render (Suc i) ps (ra, sps, prs) =
     (ra, sps @ map parameterSignature ps, prs @ map (parameterDoc render) ps)"
  by (induction ps arbitrary: i ra sps prs) simp_all

lemma parametersLoop_start:
  "parametersLoop render 0 ps (ra, sps, prs) =
     ((case ps of [] \<Rightarrow> ra | p # _ \<Rightarrow> parameterRequired p),
      sps @ map parameterSignature ps, prs @ map (parameterDoc render) ps)"
  by (cases ps) (simp_all add: parametersLoop_later)

lemma extractParameters_eq:
  "extractParameters render sg =
     (firstRequired sg,
      map parameterSignature (parametersOf sg),
      map (typeParameterDoc render) (typeParametersOf sg)
        @ map (parameterDoc render) (parametersOf sg))"
  by (simp add: extractParameters_def parametersLoop_start firstRequired_def)

lemma documentMethod_eq:
  "m_signatures m = sg # rest \<Longrightarrow>
   documentMethod v e lm m =
     ([ConsoleDebug (''- method '' @ prettyMethodName (m_name m)), FakerSeed 0]
       @ (if \<not> firstRequired sg then [FakerCall lm (m_name m)] else []),
      Inr \<lparr>md_name = prettyMethodName (m_name m),
           md_description = renderBlock v e (toBlock (s_comment sg)),
           md_parameters = map (typeParameterDoc (renderBlock v e)) (typeParametersOf sg)
                             @ map (parameterDoc (renderBlock v e)) (parametersOf sg),
           md_returns = s_type sg,
           md_examples = renderExamples v e
              (composeExamples e lm (m_name m) sg (firstRequired sg)
                  (map parameterSignature (parametersOf sg)))\<rparr>)"
  by (simp add: documentMethod_def Let_def extractParameters_eq)

lemma documentMethod_no_signature:
  "m_signatures m = [] \<Longrightarrow>
   documentMethod v e lm m =
     ([ConsoleDebug (''- method '' @ prettyMethodName (m_name m))], Inl TypeError)"
  by (simp add: documentMethod_def Let_def)

subsection \<open>Zero-argument calls\<close>

text \<open>
  Claim C1. A method is taken to be callable without arguments, and the call
  \<open>faker[module][method]()\<close> is attempted, exactly when its signature has no parameter or
  its first parameter has a default value. The parameters after the first play no part:
  the value of \<open>requiresArgs\<close> is the same for every tail of the parameter list.
\<close>

theorem zero_argument_call_iff_first_parameter_default:
  assumes "m_signatures m = sg # rest"
  shows "(FakerCall lm (m_name m) \<in> set (fst (documentMethod v e lm m)))
           = (case parametersOf sg of [] \<Rightarrow> True | p # _ \<Rightarrow> p_defaultValue p \<noteq> None)
         \<and> (\<not> fst (extractParameters render sg))
           = (case parametersOf sg of [] \<Rightarrow> True | p # _ \<Rightarrow> p_defaultValue p \<noteq> None)
         \<and> fst (extractParameters render (sg\<lparr>s_parameters := Some (p # ps)\<rparr>))
           = fst (extractParameters render (sg\<lparr>s_parameters := Some (p # ps')\<rparr>))"
  using assms
  by (simp add: documentMethod_eq extractParameters_eq firstRequired_def parameterRequired_def
        parametersOf_def split: list.splits)

text \<open>\<open>zipCode\<close> has a first parameter with a default and a second one without: the call
  is attempted.\<close>

theorem zero_argument_call_witness:
  "FakerCall ''address'' ''zipCode''
     \<in> set (fst (documentMethod Plain sampleEnv ''address'' zipCodeMethod))"
  using zero_argument_call_iff_first_parameter_default
          [of zipCodeMethod zipCodeSignature "[]" "''address''" Plain sampleEnv]
  by (simp add: zipCodeMethod_def zipCodeSignature_def parametersOf_def)

subsection \<open>The optional marker\<close>

text \<open>
  Claim C2. The claim wants the marker \<open>?\<close> on the parameters that have a default value.
  The script appends it when \<open>parameterRequired\<close> holds, that is on the parameters without
  default: \<open>format\<close>, which has the default \<open>'#####'\<close>, is printed without the marker, and
  \<open>state\<close>, which has none, is printed as \<open>state?\<close>. The text \<open> = <default>\<close> is where the
  claim puts it.
\<close>

theorem marker_on_parameter_without_default:
  "fst (snd (extractParameters render zipCodeSignature))
     = [''format: string = '' @ sq @ ''#####'' @ sq, ''state?: string'']"
  by (simp add: extractParameters_eq zipCodeSignature_def parametersOf_def
        parameterSignature_def parameterRequired_def)

subsection \<open>Truncation of the example\<close>

text \<open>
  Claim C3. When the call returns and the serialization gives a text, the example line
  stores that text unchanged if it has at most 50 characters; a longer one is stored as
  its first 47 characters followed by three dots, 50 characters in all.
\<close>

theorem long_example_cut_to_fifty:
  assumes "fakerCall e lm mn = Returns val"
    and "jsonStringify e val = Returns (Some serialized)"
  shows "(\<exists>stored. exampleCall e lm mn =
            Some (''faker.'' @ lm @ ''.'' @ mn @ ''()''
                  @ (if stored \<noteq> [] then '' // => '' @ stored else []) @ nl)
            \<and> stored = truncateExample serialized)
         \<and> (50 < length serialized \<longrightarrow>
               truncateExample serialized = take 47 serialized @ ''...''
               \<and> length (truncateExample serialized) = 50)
         \<and> (length serialized \<le> 50 \<longrightarrow> truncateExample serialized = serialized)"
  using assms by (simp add: exampleCall_def truncateExample_def Let_def)

text \<open>The street address serializes to 62 characters.\<close>

theorem long_example_cut_to_fifty_witness:
  "exampleCall sampleEnv ''address'' ''streetAddress''
     = Some (''faker.address.streetAddress() // => ''
             @ dq @ ''63 Main Street, Apartment 4, West Springfield,...'' @ nl)"
proof -
  let ?street = "''63 Main Street, Apartment 4, West Springfield, Massachusetts''"
  have call: "fakerCall sampleEnv ''address'' ''streetAddress'' = Returns ?street"
    by (simp add: sampleEnv_def)
  have serial: "jsonStringify sampleEnv ?street = Returns (Some (quoteJSONString ?street))"
    by (simp add: sampleEnv_def)
  have quoted: "quoteJSONString ?street = dq @ ?street @ dq"
    by (simp add: quoteJSONString_def quoteJSONChar_def)
  from long_example_cut_to_fifty [OF call serial] show ?thesis
    by (simp add: quoted)
qed

subsection \<open>Display names\<close>

lemma spacedFrom_capitals:
  "\<forall>c \<in> set xs. isCapital c \<Longrightarrow> spacedFrom True (xs @ ys) = xs @ spacedFrom True ys"
  by (induction xs) simp_all

lemma spacedFrom_after_run:
  "spacedFrom True (dropWhile isCapital cs) = spacedFrom False (dropWhile isCapital cs)"
proof (cases "dropWhile isCapital cs")
  case Nil
  show ?thesis unfolding Nil by simp
next
  case (Cons d ds)
  then have "\<not> isCapital d"
    by (metis hd_dropWhile list.sel(1) list.distinct(1))
  then show ?thesis unfolding Cons by simp
qed

lemma spacedFrom_run:
  "spacedFrom True cs = takeWhile isCapital cs @ spacedFrom False (dropWhile isCapital cs)"
proof -
  have "spacedFrom True (takeWhile isCapital cs @ dropWhile isCapital cs)
          = takeWhile isCapital cs @ spacedFrom True (dropWhile isCapital cs)"
    by (rule spacedFrom_capitals) (auto dest: set_takeWhileD)
  then show ?thesis
    by (simp only: takeWhile_dropWhile_id spacedFrom_after_run)
qed

lemma spaceBeforeCapitals_spacedFrom: "spaceBeforeCapitals s = spacedFrom False s"
proof (induction s rule: spaceBeforeCapitals.induct)
  case 1
  then show ?case by simp
next
  case (2 c cs)
  show ?case
  proof (cases "isCapital c")
    case True
    with 2 show ?thesis by (simp add: spacedFrom_run)
  next
    case False
    with 2 show ?thesis by simp
  qed
qed

lemma spacedFrom_positions:
  "spacedFrom prev s =
     concat (map (\<lambda>i. (if isCapital (s ! i) \<and> \<not> (if i = 0 then prev else isCapital (s ! (i - 1)))
                        then '' '' else []) @ [s ! i]) [0..<length s])"
proof (induction s arbitrary: prev)
  case Nil
  then show ?case by simp
next
  case (Cons c cs)
  have shift: "[0..<length (c # cs)] = 0 # map Suc [0..<length cs]"
    by (simp add: upt_conv_Cons map_Suc_upt del: upt_Suc)
  show ?case
    unfolding shift
    by (simp add: Cons.IH [of "isCapital c"] comp_def nth_Cons' if_distrib [of isCapital])
qed

lemma spaceBeforeCapitals_positions:
  "spaceBeforeCapitals s =
     concat (map (\<lambda>i. (if startsRun isCapital s i then '' '' else []) @ [s ! i]) [0..<length s])"
  unfolding spaceBeforeCapitals_spacedFrom spacedFrom_positions startsRun_def
  by (intro arg_cong [where f = concat] map_cong) auto

lemma humanizedName_cong:
  assumes "\<forall>c \<in> set (drop 1 methodName). upper c = upper' c"
  shows "humanizedName upper methodName = humanizedName upper' methodName"
proof (cases methodName)
  case Nil
  then show ?thesis by (simp add: humanizedName_def)
next
  case (Cons first remainder)
  with assms have same: "\<forall>c \<in> set remainder. upper c = upper' c" by simp
  have "startsRun upper remainder i = startsRun upper' remainder i"
    if "i < length remainder" for i
  proof -
    from that have "remainder ! i \<in> set remainder" by simp
    moreover from that have "i \<noteq> 0 \<longrightarrow> remainder ! (i - 1) \<in> set remainder" by simp
    ultimately show ?thesis using same by (auto simp: startsRun_def)
  qed
  then have "map (\<lambda>i. (if startsRun upper remainder i then '' '' else []) @ [remainder ! i])
                 [0..<length remainder]
             = map (\<lambda>i. (if startsRun upper' remainder i then '' '' else []) @ [remainder ! i])
                 [0..<length remainder]"
    by (intro map_cong) simp_all
  then show ?thesis
    unfolding Cons humanizedName_def by (simp only: list.case)
qed

lemma isCapital_isUpperCaseLetter: "isCapital c \<Longrightarrow> isUpperCaseLetter c"
  by (auto simp: isCapital_def isUpperCaseLetter_def toLowerCase_def)

text \<open>
  Claim C7, as stated, fails: in the name \<open>a\<close>, \<open>U+00C9\<close>, \<open>b\<close> the remainder holds the
  uppercase letter \<open>U+00C9\<close> (capital E with acute), a run of one uppercase letter, and the
  script puts no space before it, since its pattern \<open>[A-Z]\<close> knows the ASCII capitals
  only. The sentence of the claim asks for a space there.
\<close>

theorem prettyMethodName_no_space_before_accented_capital:
  "isUpperCaseLetter (CHR 0xC9)
   \<and> prettyMethodName [CHR ''a'', CHR 0xC9, CHR ''b''] = [CHR ''A'', CHR 0xC9, CHR ''b'']
   \<and> humanizedName isUpperCaseLetter [CHR ''a'', CHR 0xC9, CHR ''b'']
       = [CHR ''A'', CHR '' '', CHR 0xC9, CHR ''b'']"
  by (simp add: isUpperCaseLetter_def toLowerCase_def prettyMethodName_def toUpperCase_def
        isCapital_def humanizedName_def startsRun_def)

text \<open>
  Claim C7, amended. The display name of a method is its name with the first character
  capitalized and one space put before every run of the capital letters \<open>A\<close> to \<open>Z\<close> of
  the remainder; no character of the remainder changes, and an uppercase letter outside
  \<open>A\<close> to \<open>Z\<close> is not the start of a run. (The capital of the first character is the one
  \<open>toUpperCase\<close> gives; the names that begin with one of the two code units whose capital
  the strings of the model cannot hold are left out.) The scan of the regular expression
  and the position-wise reading of the sentence give the same text; and on every name
  whose remainder has no uppercase letter outside \<open>A\<close> to \<open>Z\<close>, the sentence of the claim
  holds as it was stated.
\<close>

theorem prettyMethodName_humanized:
  assumes "\<forall>c \<in> set (take 1 methodName). capitalInModel c"
  shows "prettyMethodName methodName = humanizedName isCapital methodName
         \<and> ((\<forall>c \<in> set (drop 1 methodName). isUpperCaseLetter c \<longrightarrow> isCapital c) \<longrightarrow>
              prettyMethodName methodName = humanizedName isUpperCaseLetter methodName)"
proof -
  have scan: "prettyMethodName methodName = humanizedName isCapital methodName"
  proof (cases methodName)
    case Nil
    then show ?thesis by (simp add: prettyMethodName_def humanizedName_def)
  next
    case (Cons first remainder)
    then show ?thesis
      by (simp add: prettyMethodName_def humanizedName_def spaceBeforeCapitals_positions)
  qed
  have "humanizedName isCapital methodName = humanizedName isUpperCaseLetter methodName"
    if "\<forall>c \<in> set (drop 1 methodName). isUpperCaseLetter c \<longrightarrow> isCapital c"
    using that by (intro humanizedName_cong) (auto dest: isCapital_isUpperCaseLetter)
  with scan show ?thesis by simp
qed

text \<open>\<open>randomBankAccount\<close>; and a name that begins with the small e with acute \<open>U+00E9\<close>,
  whose capital is \<open>U+00C9\<close>.\<close>

theorem prettyMethodName_humanized_witness:
  "prettyMethodName ''randomBankAccount'' = ''Random Bank Account''
   \<and> prettyMethodName [CHR 0xE9, CHR ''t'', CHR ''a'', CHR ''t'', CHR ''B'', CHR ''C'', CHR ''d'']
       = [CHR 0xC9, CHR ''t'', CHR ''a'', CHR ''t'', CHR '' '', CHR ''B'', CHR ''C'', CHR ''d'']"
proof -
  have "\<forall>c \<in> set (take 1 ''randomBankAccount''). capitalInModel c"
    by (simp add: capitalInModel_def)
  from prettyMethodName_humanized [OF this]
  have first: "prettyMethodName ''randomBankAccount'' = ''Random Bank Account''"
    by (simp add: humanizedName_def startsRun_def isCapital_def toUpperCase_def
          upt_rec [of _ "numeral _"] upt_rec [of 0])
  let ?etat = "[CHR 0xE9, CHR ''t'', CHR ''a'', CHR ''t'', CHR ''B'', CHR ''C'', CHR ''d'']"
  have "\<forall>c \<in> set (take 1 ?etat). capitalInModel c"
    by (simp add: capitalInModel_def)
  from prettyMethodName_humanized [OF this]
  have "prettyMethodName ?etat
       = [CHR 0xC9, CHR ''t'', CHR ''a'', CHR ''t'', CHR '' '', CHR ''B'', CHR ''C'', CHR ''d'']"
    by (simp add: humanizedName_def startsRun_def isCapital_def toUpperCase_def
          upt_rec [of _ "numeral _"] upt_rec [of 0])
  with first show ?thesis by simp
qed

subsection \<open>No project, no output\<close>

text \<open>
  Claim C9. When the conversion gives no project, the run ends at once, without error and
  without any effect: no JSON dump, no module page, no manifest. With a project, the dump
  is the first thing the run does.
\<close>

theorem no_project_no_output:
  "build v e None = ([], Inr ())
   \<and> (\<exists>evs. fst (build v e (Some project)) = GenerateJson OutputJson # evs)"
  by (auto simp: build_def split: list.splits prod.splits sum.splits)

theorem no_project_no_output_witness:
  "build Plain sampleEnv None = ([], Inr ())
   \<and> hd (fst (build Plain sampleEnv (Some sampleProject))) = GenerateJson OutputJson"
  using no_project_no_output [of Plain sampleEnv sampleProject]
  by auto

subsection \<open>Comment blocks and their fallback\<close>

text \<open>
  Claim C10. A comment block is the trimmed short text, or the word \<open>Missing\<close> when there
  is no comment or the short text trims to nothing; the long text, when there is one,
  follows after an empty line. The description of a method, of each type parameter and
  parameter, and the block of the module page are all made this way (the method record
  stores the block as the revision renders it, the page template holds it between the
  \<open>v-pre\<close> fences).
\<close>

theorem toBlock_missing_fallback:
  "toBlock None = ''Missing''
   \<and> toBlock (Some c)
       = (if trim (c_shortText c) = [] then ''Missing'' else trim (c_shortText c))
         @ (if c_text c = [] then [] else nl @ nl @ c_text c)
   \<and> (m_signatures m = sg # rest \<longrightarrow>
        (\<exists>doc. snd (documentMethod v e lm m) = Inr doc
           \<and> md_description doc = renderBlock v e (toBlock (s_comment sg))
           \<and> map mp_description (md_parameters doc)
               = map (\<lambda>t. renderBlock v e (toBlock (tp_comment t))) (typeParametersOf sg)
                 @ map (\<lambda>p. renderBlock v e (toBlock (p_comment p))) (parametersOf sg)))
   \<and> (\<exists>before after.
         markdownTemplate v moduleName lowerModuleName methods cm
           = before @ ''::: v-pre'' @ nl @ nl @ ''      '' @ toBlock cm @ nl @ nl @ ''      :::'' @ after)"
proof -
  have block: "toBlock (Some c)
       = (if trim (c_shortText c) = [] then ''Missing'' else trim (c_shortText c))
         @ (if c_text c = [] then [] else nl @ nl @ c_text c)"
    by (simp add: toBlock_def orElse_def)
  have uses: "m_signatures m = sg # rest \<longrightarrow>
        (\<exists>doc. snd (documentMethod v e lm m) = Inr doc
           \<and> md_description doc = renderBlock v e (toBlock (s_comment sg))
           \<and> map mp_description (md_parameters doc)
               = map (\<lambda>t. renderBlock v e (toBlock (tp_comment t))) (typeParametersOf sg)
                 @ map (\<lambda>p. renderBlock v e (toBlock (p_comment p))) (parametersOf sg))"
    by (simp add: documentMethod_eq typeParameterDoc_def parameterDoc_def comp_def)
  define before where
    "before = markdownScript v lowerModuleName methods @ nl @ nl @ ''      # '' @ moduleName @ nl
              @ markdownGeneratedLines @ nl @ nl @ ''      ''"
  obtain after where
    "markdownTemplate v moduleName lowerModuleName methods cm
       = before @ ''::: v-pre'' @ nl @ nl @ ''      '' @ toBlock cm @ nl @ nl @ ''      :::'' @ after"
    by (simp add: markdownTemplate_def before_def)
  then have page: "\<exists>before after.
         markdownTemplate v moduleName lowerModuleName methods cm
           = before @ ''::: v-pre'' @ nl @ nl @ ''      '' @ toBlock cm @ nl @ nl @ ''      :::'' @ after"
    by blast
  show ?thesis
    using block uses page by (simp add: toBlock_def)
qed

text \<open>A short text of blanks with a long text; and the method \<open>zipCode\<close>, whose first
  parameter has no comment.\<close>

theorem toBlock_missing_fallback_witness:
  "toBlock (Some \<lparr>c_shortText = ''  '', c_text = ''Details.'', c_tags = []\<rparr>)
     = ''Missing'' @ nl @ nl @ ''Details.''
   \<and> (\<exists>doc. snd (documentMethod Plain sampleEnv ''address'' zipCodeMethod) = Inr doc
         \<and> md_description doc = ''Generates a zip code.''
         \<and> map mp_description (md_parameters doc) = [''Missing'', ''The state.''])"
  using toBlock_missing_fallback
          [where c = "\<lparr>c_shortText = ''  '', c_text = ''Details.'', c_tags = []\<rparr>"
             and m = zipCodeMethod and sg = zipCodeSignature and rest = "[]"
             and v = Plain and e = sampleEnv and lm = "''address''"]
  by (simp add: zipCodeMethod_def zipCodeSignature_def parametersOf_def typeParametersOf_def
        renderBlock_def toBlock_def orElse_def trim_def trimStart_def trimEnd_def
        isWhiteSpace_def)

subsection \<open>The signature line\<close>

text \<open>
  Claim C5. The example text of every method begins with the line
  \<open>faker.module.method<T>(parameters): returnType\<close>. When the first parameter has no
  default value, the only effects of the method are the debug line and the re-seeding: the
  library is not called, and the example text is the signature line followed by the
  author's examples; the description is there as for any method.
\<close>

theorem examples_begin_with_signature_line:
  assumes "m_signatures m = sg # rest"
  shows "\<exists>doc examples.
           snd (documentMethod v e lm m) = Inr doc
         \<and> md_examples doc = renderExamples v e examples
         \<and> md_description doc = renderBlock v e (toBlock (s_comment sg))
         \<and> examples = composeExamples e lm (m_name m) sg (firstRequired sg)
                         (map parameterSignature (parametersOf sg))
         \<and> prefix (''faker.'' @ lm @ ''.'' @ m_name m
                    @ (if typeParametersOf sg = [] then []
                       else ''<'' @ join '', '' (map tp_name (typeParametersOf sg)) @ ''>'')
                    @ ''('' @ join '', '' (map parameterSignature (parametersOf sg)) @ ''): ''
                    @ s_type sg @ nl)
                   examples
         \<and> ((\<exists>p ps. parametersOf sg = p # ps \<and> p_defaultValue p = None) \<longrightarrow>
              fst (documentMethod v e lm m)
                = [ConsoleDebug (''- method '' @ prettyMethodName (m_name m)), FakerSeed 0]
              \<and> examples
                = signatureLine lm (m_name m) sg (map parameterSignature (parametersOf sg))
                  @ exampleTagsText sg)"
proof -
  let ?examples = "composeExamples e lm (m_name m) sg (firstRequired sg)
                     (map parameterSignature (parametersOf sg))"
  have line: "signatureLine lm (m_name m) sg (map parameterSignature (parametersOf sg))
        = ''faker.'' @ lm @ ''.'' @ m_name m
          @ (if typeParametersOf sg = [] then []
             else ''<'' @ join '', '' (map tp_name (typeParametersOf sg)) @ ''>'')
          @ ''('' @ join '', '' (map parameterSignature (parametersOf sg)) @ ''): ''
          @ s_type sg @ nl"
    by (simp add: signatureLine_def Let_def)
  have "prefix (signatureLine lm (m_name m) sg (map parameterSignature (parametersOf sg))) ?examples"
    by (simp add: composeExamples_def)
  moreover have "(\<exists>p ps. parametersOf sg = p # ps \<and> p_defaultValue p = None) \<longrightarrow>
      firstRequired sg
      \<and> ?examples = signatureLine lm (m_name m) sg (map parameterSignature (parametersOf sg))
                      @ exampleTagsText sg"
    by (auto simp: firstRequired_def parameterRequired_def composeExamples_def)
  ultimately show ?thesis
    unfolding line using assms by (auto simp: documentMethod_eq)
qed

text \<open>\<open>cityPrefix(index: number)\<close> has a required first parameter.\<close>

theorem examples_begin_with_signature_line_witness:
  "fst (documentMethod Plain sampleEnv ''address'' cityPrefixMethod)
     = [ConsoleDebug ''- method City Prefix'', FakerSeed 0]
   \<and> (\<exists>doc. snd (documentMethod Plain sampleEnv ''address'' cityPrefixMethod) = Inr doc
         \<and> md_description doc = ''A city prefix.''
         \<and> md_examples doc = ''faker.address.cityPrefix(index?: number): string'' @ nl)"
proof -
  have sig: "m_signatures cityPrefixMethod = cityPrefixSignature # []"
    by (simp add: cityPrefixMethod_def)
  have params: "parametersOf cityPrefixSignature
      = [\<lparr>p_name = ''index'', p_type = ''number'', p_defaultValue = None, p_comment = None\<rparr>]"
    by (simp add: cityPrefixSignature_def parametersOf_def)
  have name: "prettyMethodName (m_name cityPrefixMethod) = ''City Prefix''"
    by (simp add: cityPrefixMethod_def prettyMethodName_def toUpperCase_def isCapital_def)
  have line: "signatureLine ''address'' (m_name cityPrefixMethod) cityPrefixSignature
                (map parameterSignature (parametersOf cityPrefixSignature))
              @ exampleTagsText cityPrefixSignature
      = ''faker.address.cityPrefix(index?: number): string'' @ nl"
    by (simp add: parametersOf_def signatureLine_def typeParametersOf_def parameterSignature_def
          parameterRequired_def exampleTagsText_def exampleTags_def cityPrefixSignature_def
          cityPrefixMethod_def)
  have block: "toBlock (s_comment cityPrefixSignature) = ''A city prefix.''"
    by (simp add: cityPrefixSignature_def toBlock_def orElse_def trim_def trimStart_def
          trimEnd_def isWhiteSpace_def)
  from examples_begin_with_signature_line [OF sig, of Plain sampleEnv "''address''"]
  obtain doc examples where
    doc: "snd (documentMethod Plain sampleEnv ''address'' cityPrefixMethod) = Inr doc"
      "md_examples doc = renderExamples Plain sampleEnv examples"
      "md_description doc = renderBlock Plain sampleEnv (toBlock (s_comment cityPrefixSignature))"
    and required:
      "(\<exists>p ps. parametersOf cityPrefixSignature = p # ps \<and> p_defaultValue p = None) \<longrightarrow>
         fst (documentMethod Plain sampleEnv ''address'' cityPrefixMethod)
           = [ConsoleDebug (''- method '' @ prettyMethodName (m_name cityPrefixMethod)), FakerSeed 0]
         \<and> examples
           = signatureLine ''address'' (m_name cityPrefixMethod) cityPrefixSignature
               (map parameterSignature (parametersOf cityPrefixSignature))
             @ exampleTagsText cityPrefixSignature"
    by blast
  have "\<exists>p ps. parametersOf cityPrefixSignature = p # ps \<and> p_defaultValue p = None"
    by (simp add: params)
  with required have
    "fst (documentMethod Plain sampleEnv ''address'' cityPrefixMethod)
       = [ConsoleDebug (''- method '' @ prettyMethodName (m_name cityPrefixMethod)), FakerSeed 0]"
    and "examples = ''faker.address.cityPrefix(index?: number): string'' @ nl"
    unfolding line by blast+
  with doc show ?thesis
    by (simp add: name block renderExamples_def renderBlock_def)
qed

subsection \<open>A failing example call\<close>

lemma renderBlock_library:
  "renderBlock v (e\<lparr>fakerCall := f, jsonStringify := g\<rparr>) = renderBlock v e"
  by (cases v) (simp_all add: renderBlock_def fun_eq_iff)

lemma documentMethod_library:
  "fst (documentMethod v (e\<lparr>fakerCall := f, jsonStringify := g\<rparr>) lm m)
     = fst (documentMethod v e lm m)
   \<and> finished (snd (documentMethod v (e\<lparr>fakerCall := f, jsonStringify := g\<rparr>) lm m))
       = finished (snd (documentMethod v e lm m))"
  by (cases "m_signatures m") (simp_all add: documentMethod_eq documentMethod_no_signature)

lemma documentMethods_library:
  "fst (documentMethods v (e\<lparr>fakerCall := f, jsonStringify := g\<rparr>) lm ms)
     = fst (documentMethods v e lm ms)
   \<and> finished (snd (documentMethods v (e\<lparr>fakerCall := f, jsonStringify := g\<rparr>) lm ms))
       = finished (snd (documentMethods v e lm ms))"
proof (induction ms)
  case Nil
  then show ?case by simp
next
  case (Cons m ms)
  let ?e' = "e\<lparr>fakerCall := f, jsonStringify := g\<rparr>"
  obtain a b where ab: "documentMethod v e lm m = (a, b)"
    by (cases "documentMethod v e lm m")
  obtain a' b' where ab': "documentMethod v ?e' lm m = (a', b')"
    by (cases "documentMethod v ?e' lm m")
  obtain c d where cd: "documentMethods v e lm ms = (c, d)"
    by (cases "documentMethods v e lm ms")
  obtain c' d' where cd': "documentMethods v ?e' lm ms = (c', d')"
    by (cases "documentMethods v ?e' lm ms")
  from documentMethod_library [where v = v and e = e and f = f and g = g and lm = lm and m = m]
    ab ab'
  have one: "a' = a" "finished b' = finished b" by simp_all
  from Cons.IH cd cd' have others: "c' = c" "finished d' = finished d" by simp_all
  show ?case
    using one others by (cases b; cases b'; cases d; cases d') (simp_all add: ab ab' cd cd')
qed

lemma documentModule_library:
  "map withoutContent (fst (documentModule v (e\<lparr>fakerCall := f, jsonStringify := g\<rparr>) md))
     = map withoutContent (fst (documentModule v e md))
   \<and> snd (documentModule v (e\<lparr>fakerCall := f, jsonStringify := g\<rparr>) md)
       = snd (documentModule v e md)"
proof -
  let ?e' = "e\<lparr>fakerCall := f, jsonStringify := g\<rparr>"
  let ?lm = "lowerModuleNameOf md"
  obtain c d where cd: "documentMethods v e ?lm (mod_methods md) = (c, d)"
    by (cases "documentMethods v e ?lm (mod_methods md)")
  obtain c' d' where cd': "documentMethods v ?e' ?lm (mod_methods md) = (c', d')"
    by (cases "documentMethods v ?e' ?lm (mod_methods md)")
  from documentMethods_library
         [where v = v and e = e and f = f and g = g and lm = ?lm and ms = "mod_methods md"]
    cd cd'
  have same: "c' = c" "finished d' = finished d" by simp_all
  show ?thesis
    using same
    by (cases d; cases d')
       (simp_all add: documentModule_def Let_def cd cd' withoutContent_def split: variant.split)
qed

lemma documentModules_library:
  "map withoutContent (fst (documentModules v (e\<lparr>fakerCall := f, jsonStringify := g\<rparr>) mds))
     = map withoutContent (fst (documentModules v e mds))
   \<and> snd (documentModules v (e\<lparr>fakerCall := f, jsonStringify := g\<rparr>) mds)
       = snd (documentModules v e mds)"
proof (induction mds)
  case Nil
  then show ?case by simp
next
  case (Cons md mds)
  let ?e' = "e\<lparr>fakerCall := f, jsonStringify := g\<rparr>"
  obtain a b where ab: "documentModule v e md = (a, b)"
    by (cases "documentModule v e md")
  obtain a' b' where ab': "documentModule v ?e' md = (a', b')"
    by (cases "documentModule v ?e' md")
  obtain c d where cd: "documentModules v e mds = (c, d)"
    by (cases "documentModules v e mds")
  obtain c' d' where cd': "documentModules v ?e' mds = (c', d')"
    by (cases "documentModules v ?e' mds")
  from documentModule_library [where v = v and e = e and f = f and g = g and md = md] ab ab'
  have one: "map withoutContent a' = map withoutContent a" "b' = b" by simp_all
  from Cons.IH cd cd' have others: "map withoutContent c' = map withoutContent c" "d' = d"
    by simp_all
  show ?case
    using one others by (cases b; cases d) (simp_all add: ab ab' cd cd')
qed

lemma build_library:
  fixes e :: "('v, 'k::linorder) env"
  shows "map withoutContent (fst (build v (e\<lparr>fakerCall := f, jsonStringify := g\<rparr>) converted))
           = map withoutContent (fst (build v e converted))
         \<and> snd (build v (e\<lparr>fakerCall := f, jsonStringify := g\<rparr>) converted)
             = snd (build v e converted)"
proof (cases converted)
  case None
  then show ?thesis by (simp add: build_def)
next
  case (Some project)
  show ?thesis
  proof (cases "pr_namespaces project")
    case Nil
    with Some show ?thesis by (simp add: build_def)
  next
    case (Cons ns others)
    let ?e' = "e\<lparr>fakerCall := f, jsonStringify := g\<rparr>"
    obtain c d where cd: "documentModules v e (ns_classes ns) = (c, d)"
      by (cases "documentModules v e (ns_classes ns)")
    obtain c' d' where cd': "documentModules v ?e' (ns_classes ns) = (c', d')"
      by (cases "documentModules v ?e' (ns_classes ns)")
    from documentModules_library
           [where v = v and e = e and f = f and g = g and mds = "ns_classes ns"]
      cd cd'
    have same: "map withoutContent c' = map withoutContent c" "d' = d" by simp_all
    show ?thesis
      using same
      by (cases d) (simp_all add: build_def Some Cons cd cd' sortPages_def withoutContent_def)
  qed
qed

lemma exampleCall_caught:
  assumes "fakerCall e lm mn = Throws
           \<or> (\<exists>result. fakerCall e lm mn = Returns result
                 \<and> (jsonStringify e result = Throws \<or> jsonStringify e result = Returns None))"
  shows "exampleCall e lm mn = None"
  using assms by (auto simp: exampleCall_def)

lemma documentMethods_all:
  assumes "\<forall>m \<in> set ms. m_signatures m \<noteq> []"
  shows "\<exists>docs. documentMethods v e lm ms
                  = (concat (map (\<lambda>m. fst (documentMethod v e lm m)) ms), Inr docs)
               \<and> list_all2 (\<lambda>m doc. snd (documentMethod v e lm m) = Inr doc) ms docs"
  using assms
proof (induction ms)
  case Nil
  then show ?case by simp
next
  case (Cons m ms)
  from Cons.prems obtain sg rest where "m_signatures m = sg # rest"
    by (cases "m_signatures m") auto
  from documentMethod_eq [OF this] obtain evs doc where
    one: "documentMethod v e lm m = (evs, Inr doc)"
    by blast
  from Cons obtain docs where
    others: "documentMethods v e lm ms
               = (concat (map (\<lambda>m. fst (documentMethod v e lm m)) ms), Inr docs)"
      "list_all2 (\<lambda>m doc. snd (documentMethod v e lm m) = Inr doc) ms docs"
    by auto
  show ?case
    by (rule exI [of _ "doc # docs"]) (simp add: one others)
qed

lemma pageWritten_mono:
  "pageWritten v e md evs \<Longrightarrow> set evs \<subseteq> set evs' \<Longrightarrow> pageWritten v e md evs'"
  unfolding pageWritten_def by blast

lemma documentModule_all:
  assumes "\<forall>m \<in> set (mod_methods md). m_signatures m \<noteq> []"
  shows "\<exists>evs. documentModule v e md = (evs, Inr (modulePage md)) \<and> pageWritten v e md evs"
proof -
  from documentMethods_all [OF assms, where v = v and e = e and lm = "lowerModuleNameOf md"]
  obtain docs where
    docs: "documentMethods v e (lowerModuleNameOf md) (mod_methods md)
             = (concat (map (\<lambda>m. fst (documentMethod v e (lowerModuleNameOf md) m))
                           (mod_methods md)), Inr docs)"
      "list_all2 (\<lambda>m doc. snd (documentMethod v e (lowerModuleNameOf md) m) = Inr doc)
         (mod_methods md) docs"
    by blast
  obtain evs where evs: "evs = fst (documentModule v e md)" by simp
  have result: "documentModule v e md = (evs, Inr (modulePage md))"
    by (simp add: evs documentModule_def Let_def docs(1))
  have page: "WriteFileSync (OutputFile (lowerModuleNameOf md @ ''.md''))
             (prettierFormat e Markdown
                (markdownContent v (moduleNameOf md) (lowerModuleNameOf md) docs (mod_comment md)))
            \<in> set evs"
    by (simp add: evs documentModule_def Let_def docs(1))
  have data: "v = Prerendered \<longrightarrow>
              WriteFileSync (OutputFile (lowerModuleNameOf md @ ''.ts''))
                (prettierFormat e Typescript (contentTs (lowerModuleNameOf md) docs))
               \<in> set evs"
    unfolding evs documentModule_def Let_def docs(1) by (simp split: variant.split)
  from docs(2) page data have "pageWritten v e md evs"
    unfolding pageWritten_def by blast
  with result show ?thesis by blast
qed

lemma documentModules_all:
  assumes "\<forall>md \<in> set mds. \<forall>m \<in> set (mod_methods md). m_signatures m \<noteq> []"
  shows "\<exists>evs. documentModules v e mds = (evs, Inr (map modulePage mds))
               \<and> (\<forall>md \<in> set mds. pageWritten v e md evs)"
  using assms
proof (induction mds)
  case Nil
  then show ?case by simp
next
  case (Cons md mds)
  from Cons.prems have "\<forall>m \<in> set (mod_methods md). m_signatures m \<noteq> []" by simp
  from documentModule_all [OF this, where v = v and e = e] obtain evs where
    one: "documentModule v e md = (evs, Inr (modulePage md))" "pageWritten v e md evs"
    by blast
  from Cons obtain evs' where
    others: "documentModules v e mds = (evs', Inr (map modulePage mds))"
      "\<forall>md \<in> set mds. pageWritten v e md evs'"
    by auto
  have "documentModules v e (md # mds) = (evs @ evs', Inr (map modulePage (md # mds)))"
    by (simp add: one(1) others(1))
  moreover have "pageWritten v e md (evs @ evs')"
    using one(2) by (rule pageWritten_mono) simp
  moreover have "\<forall>md \<in> set mds. pageWritten v e md (evs @ evs')"
    using others(2) by (auto intro: pageWritten_mono)
  ultimately show ?case by auto
qed

lemma build_all:
  fixes e :: "('v, 'k::linorder) env"
  assumes "pr_namespaces project = ns # others"
    and "\<forall>md \<in> set (ns_classes ns). \<forall>m \<in> set (mod_methods md). m_signatures m \<noteq> []"
  shows "snd (build v e (Some project)) = Inr ()
         \<and> (\<forall>md \<in> set (ns_classes ns). pageWritten v e md (fst (build v e (Some project))))"
proof -
  from documentModules_all [OF assms(2), where v = v and e = e] obtain evs where
    evs: "documentModules v e (ns_classes ns) = (evs, Inr (map modulePage (ns_classes ns)))"
      "\<forall>md \<in> set (ns_classes ns). pageWritten v e md evs"
    by blast
  have run: "build v e (Some project)
      = (GenerateJson OutputJson # evs
         @ [ConsoleLog ''Updating api-pages.mjs'',
            WriteFileSync DocsApiPages
              (prettierFormat e Babel
                 (apiPagesContent (sortPages e (fixedPages @ map modulePage (ns_classes ns)))))],
         Inr ())"
    by (simp add: build_def assms(1) evs(1))
  have "\<forall>md \<in> set (ns_classes ns). pageWritten v e md (fst (build v e (Some project)))"
    unfolding run using evs(2) by (auto intro: pageWritten_mono)
  with run show ?thesis by simp
qed

text \<open>
  Claim C6. When the call of the method throws, or the serialization of its result throws
  or gives \<open>undefined\<close> (so that reading its length throws), the method still gets its
  whole record: name, description, parameters, return type, and an example text made of
  the signature line and the author's examples, without the line of the call. The loop
  goes on: in a list of methods that all have a signature, every method gets its record,
  one record per method and in order, and the effects of the list are the effects of
  its methods one after the other; in a project whose methods all have a signature, the
  run ends without error and every module is processed to its end, its page written from
  the records of all its methods. None of this depends on what the library does: with any
  other behaviour of the library and of the serialization, the run performs the same
  sequence of effects (up to the content of the files, which holds the example texts) and
  ends the same way.
\<close>

theorem failed_example_call_drops_only_its_line:
  fixes e :: "('v, 'k::linorder) env"
  assumes "m_signatures m = sg # rest"
    and "fakerCall e lm (m_name m) = Throws
         \<or> (\<exists>result. fakerCall e lm (m_name m) = Returns result
               \<and> (jsonStringify e result = Throws \<or> jsonStringify e result = Returns None))"
  shows "snd (documentMethod v e lm m)
           = Inr \<lparr>md_name = prettyMethodName (m_name m),
                  md_description = renderBlock v e (toBlock (s_comment sg)),
                  md_parameters =
                    map (typeParameterDoc (renderBlock v e)) (typeParametersOf sg)
                    @ map (parameterDoc (renderBlock v e)) (parametersOf sg),
                  md_returns = s_type sg,
                  md_examples =
                    renderExamples v e
                      (signatureLine lm (m_name m) sg (map parameterSignature (parametersOf sg))
                       @ exampleTagsText sg)\<rparr>
         \<and> map withoutContent (fst (build v (e\<lparr>fakerCall := f, jsonStringify := g\<rparr>) converted))
             = map withoutContent (fst (build v e converted))
         \<and> snd (build v (e\<lparr>fakerCall := f, jsonStringify := g\<rparr>) converted)
             = snd (build v e converted)
         \<and> ((\<forall>m' \<in> set ms. m_signatures m' \<noteq> []) \<longrightarrow>
              (\<exists>docs. documentMethods v e lm ms
                         = (concat (map (\<lambda>m'. fst (documentMethod v e lm m')) ms), Inr docs)
                     \<and> list_all2 (\<lambda>m' doc. snd (documentMethod v e lm m') = Inr doc) ms docs))
         \<and> ((pr_namespaces project = ns # others
               \<and> (\<forall>md \<in> set (ns_classes ns). \<forall>m' \<in> set (mod_methods md). m_signatures m' \<noteq> []))
              \<longrightarrow>
              snd (build v e (Some project)) = Inr ()
              \<and> (\<forall>md \<in> set (ns_classes ns).
                    pageWritten v e md (fst (build v e (Some project)))))"
proof -
  from assms(2) have "exampleCall e lm (m_name m) = None"
    by (rule exampleCall_caught)
  then have "composeExamples e lm (m_name m) sg (firstRequired sg)
               (map parameterSignature (parametersOf sg))
             = signatureLine lm (m_name m) sg (map parameterSignature (parametersOf sg))
               @ exampleTagsText sg"
    by (simp add: composeExamples_def)
  with assms(1) have whole: "snd (documentMethod v e lm m)
           = Inr \<lparr>md_name = prettyMethodName (m_name m),
                  md_description = renderBlock v e (toBlock (s_comment sg)),
                  md_parameters =
                    map (typeParameterDoc (renderBlock v e)) (typeParametersOf sg)
                    @ map (parameterDoc (renderBlock v e)) (parametersOf sg),
                  md_returns = s_type sg,
                  md_examples =
                    renderExamples v e
                      (signatureLine lm (m_name m) sg (map parameterSignature (parametersOf sg))
                       @ exampleTagsText sg)\<rparr>"
    by (simp add: documentMethod_eq)
  show ?thesis
    using whole
      build_library [where v = v and e = e and f = f and g = g and converted = converted]
      documentMethods_all [where ms = ms and v = v and e = e and lm = lm]
      build_all [where project = project and ns = ns and others = others and v = v and e = e]
    by blast
qed

text \<open>The library of the sample throws on \<open>zipCode\<close>. In the module \<open>Address\<close> of the
  library project \<open>streetAddress\<close> comes after it and gets its record, with the line of
  its call; the run ends well and the page of the module \<open>Word\<close>, which comes after
  \<open>Address\<close>, is written.\<close>

theorem failed_example_call_witness:
  "snd (documentMethod Plain sampleEnv ''address'' zipCodeMethod)
     = Inr \<lparr>md_name = ''Zip Code'',
            md_description = ''Generates a zip code.'',
            md_parameters =
              [\<lparr>mp_name = ''format'', mp_type = Some ''string'',
                mp_default = Some (sq @ ''#####'' @ sq), mp_description = ''Missing''\<rparr>,
               \<lparr>mp_name = ''state'', mp_type = Some ''string'',
                mp_default = None, mp_description = ''The state.''\<rparr>],
            md_returns = ''string'',
            md_examples =
              ''faker.address.zipCode(format: string = '' @ sq @ ''#####'' @ sq
              @ '', state?: string): string'' @ nl
              @ ''faker.address.zipCode() // 12345'' @ nl\<rparr>
   \<and> (\<exists>zip street.
         snd (documentMethods Plain sampleEnv ''address'' [zipCodeMethod, streetAddressMethod])
           = Inr [zip, street]
         \<and> md_name zip = ''Zip Code''
         \<and> md_name street = ''Street Address''
         \<and> md_examples street
             = ''faker.address.streetAddress(): string'' @ nl
               @ ''faker.address.streetAddress() // => ''
               @ dq @ ''63 Main Street, Apartment 4, West Springfield,...'' @ nl)
   \<and> snd (build Plain sampleEnv (Some libraryProject)) = Inr ()
   \<and> (\<exists>page. WriteFileSync (OutputFile ''word.md'') page
                 \<in> set (fst (build Plain sampleEnv (Some libraryProject))))"
proof -
  let ?ns = "\<lparr>ns_classes = [addressModule, wordModule]\<rparr>"
  have sig: "m_signatures zipCodeMethod = zipCodeSignature # []"
    by (simp add: zipCodeMethod_def)
  have throws: "fakerCall sampleEnv ''address'' (m_name zipCodeMethod) = Throws
         \<or> (\<exists>result. fakerCall sampleEnv ''address'' (m_name zipCodeMethod) = Returns result
               \<and> (jsonStringify sampleEnv result = Throws
                    \<or> jsonStringify sampleEnv result = Returns None))"
    by (simp add: sampleEnv_def zipCodeMethod_def)
  have signed: "\<forall>m' \<in> set [zipCodeMethod, streetAddressMethod]. m_signatures m' \<noteq> []"
    by (simp add: zipCodeMethod_def streetAddressMethod_def)
  have namespaces: "pr_namespaces libraryProject = ?ns # []"
    by (simp add: libraryProject_def)
  have allSigned: "\<forall>md \<in> set (ns_classes ?ns). \<forall>m' \<in> set (mod_methods md). m_signatures m' \<noteq> []"
    by (simp add: addressModule_def wordModule_def zipCodeMethod_def streetAddressMethod_def
          cityPrefixMethod_def)
  note claim = failed_example_call_drops_only_its_line
    [OF sig throws, where v = Plain and ms = "[zipCodeMethod, streetAddressMethod]"
       and project = libraryProject and ns = ?ns and others = "[]"]
  have zipRecord: "snd (documentMethod Plain sampleEnv ''address'' zipCodeMethod)
     = Inr \<lparr>md_name = ''Zip Code'',
            md_description = ''Generates a zip code.'',
            md_parameters =
              [\<lparr>mp_name = ''format'', mp_type = Some ''string'',
                mp_default = Some (sq @ ''#####'' @ sq), mp_description = ''Missing''\<rparr>,
               \<lparr>mp_name = ''state'', mp_type = Some ''string'',
                mp_default = None, mp_description = ''The state.''\<rparr>],
            md_returns = ''string'',
            md_examples =
              ''faker.address.zipCode(format: string = '' @ sq @ ''#####'' @ sq
              @ '', state?: string): string'' @ nl
              @ ''faker.address.zipCode() // 12345'' @ nl\<rparr>"
    using claim
    by (simp add: zipCodeMethod_def zipCodeSignature_def parametersOf_def typeParametersOf_def
          renderBlock_def renderExamples_def toBlock_def orElse_def trim_def trimStart_def
          trimEnd_def isWhiteSpace_def prettyMethodName_def toUpperCase_def isCapital_def
          parameterDoc_def parameterSignature_def parameterRequired_def signatureLine_def
          exampleTagsText_def exampleTags_def)
  have streetSig: "m_signatures streetAddressMethod = streetAddressSignature # []"
    by (simp add: streetAddressMethod_def)
  have quoted: "quoteJSONString ''63 Main Street, Apartment 4, West Springfield, Massachusetts''
      = dq @ ''63 Main Street, Apartment 4, West Springfield, Massachusetts'' @ dq"
    by (simp add: quoteJSONString_def quoteJSONChar_def)
  have streetCall: "exampleCall sampleEnv ''address'' ''streetAddress''
      = Some (''faker.address.streetAddress() // => ''
              @ dq @ ''63 Main Street, Apartment 4, West Springfield,...'' @ nl)"
    by (simp add: exampleCall_def sampleEnv_def quoted truncateExample_def)
  have streetRecord: "\<exists>street. snd (documentMethod Plain sampleEnv ''address'' streetAddressMethod)
        = Inr street
      \<and> md_name street = ''Street Address''
      \<and> md_examples street
          = ''faker.address.streetAddress(): string'' @ nl
            @ ''faker.address.streetAddress() // => ''
            @ dq @ ''63 Main Street, Apartment 4, West Springfield,...'' @ nl"
    unfolding documentMethod_eq [OF streetSig]
    by (simp add: streetAddressMethod_def
          streetAddressSignature_def firstRequired_def parametersOf_def typeParametersOf_def
          renderExamples_def composeExamples_def signatureLine_def streetCall exampleTagsText_def
          exampleTags_def prettyMethodName_def toUpperCase_def isCapital_def)
  from claim signed obtain docs where
    whole: "documentMethods Plain sampleEnv ''address'' [zipCodeMethod, streetAddressMethod]
             = (concat (map (\<lambda>m'. fst (documentMethod Plain sampleEnv ''address'' m'))
                          [zipCodeMethod, streetAddressMethod]), Inr docs)"
    and each: "list_all2 (\<lambda>m' doc. snd (documentMethod Plain sampleEnv ''address'' m') = Inr doc)
         [zipCodeMethod, streetAddressMethod] docs"
    by blast
  from whole have
    docs: "snd (documentMethods Plain sampleEnv ''address'' [zipCodeMethod, streetAddressMethod])
             = Inr docs"
    by (simp only: snd_conv)
  from each obtain zip street where
    two: "docs = [zip, street]"
      "snd (documentMethod Plain sampleEnv ''address'' zipCodeMethod) = Inr zip"
      "snd (documentMethod Plain sampleEnv ''address'' streetAddressMethod) = Inr street"
    by (auto simp: list_all2_Cons1)
  from two(2) zipRecord have "md_name zip = ''Zip Code''" by auto
  with docs two streetRecord have methods: "\<exists>zip street.
         snd (documentMethods Plain sampleEnv ''address'' [zipCodeMethod, streetAddressMethod])
           = Inr [zip, street]
         \<and> md_name zip = ''Zip Code''
         \<and> md_name street = ''Street Address''
         \<and> md_examples street
             = ''faker.address.streetAddress(): string'' @ nl
               @ ''faker.address.streetAddress() // => ''
               @ dq @ ''63 Main Street, Apartment 4, West Springfield,...'' @ nl"
    by auto
  from claim namespaces allSigned have run:
    "snd (build Plain sampleEnv (Some libraryProject)) = Inr ()"
    and pages: "\<forall>md \<in> set (ns_classes ?ns).
                  pageWritten Plain sampleEnv md (fst (build Plain sampleEnv (Some libraryProject)))"
    by blast+
  from pages have "pageWritten Plain sampleEnv wordModule
                     (fst (build Plain sampleEnv (Some libraryProject)))"
    by simp
  moreover have "lowerModuleNameOf wordModule = ''word''"
    by (simp add: lowerModuleNameOf_def moduleNameOf_def wordModule_def toLowerCase_def)
  ultimately have word: "\<exists>page. WriteFileSync (OutputFile ''word.md'') page
                 \<in> set (fst (build Plain sampleEnv (Some libraryProject)))"
    unfolding pageWritten_def by auto
  from zipRecord methods run word show ?thesis by blast
qed

subsection \<open>The notice of generation\<close>

lemma takeWhile_append_stop:
  "ys = [] \<or> \<not> P (hd ys) \<Longrightarrow> takeWhile P (xs @ ys) = takeWhile P xs"
  by (induction xs) (auto simp: takeWhile_eq_Nil_iff)

lemma dropWhile_append_stop:
  "ys = [] \<or> \<not> P (hd ys) \<Longrightarrow> dropWhile P (xs @ ys) = dropWhile P xs @ ys"
  by (induction xs) (auto simp: dropWhile_eq_self_iff)

lemma stripIndent_append:
  "ys = [] \<or> \<not> isSpace (hd ys) \<Longrightarrow> stripIndent (xs @ ys) = stripIndent xs @ stripIndent ys"
proof (induction xs rule: stripIndent.induct)
  case 1
  then show ?case by simp
next
  case (2 c cs)
  then show ?case
    by (simp add: takeWhile_append_stop dropWhile_append_stop)
qed

lemma stripIndent_generatedLines:
  "stripIndent (markdownGeneratedLines @ rest) = nl @ markdownBanner @ stripIndent rest"
  by (simp add: markdownGeneratedLines_def markdownBanner_def scriptCommand_def)

lemma sublist_markdownBanner:
  "sublist markdownBanner (markdownContent v moduleName lowerModuleName methods cm)"
proof -
  define head where
    "head = markdownScript v lowerModuleName methods @ nl @ nl @ ''      # '' @ moduleName @ nl"
  obtain rest where split:
    "markdownTemplate v moduleName lowerModuleName methods cm
       = head @ (markdownGeneratedLines @ rest)"
    by (simp add: markdownTemplate_def head_def)
  have "\<not> isSpace (hd (markdownGeneratedLines @ rest))"
    by (simp add: markdownGeneratedLines_def)
  then have "stripIndent (head @ (markdownGeneratedLines @ rest))
               = stripIndent head @ stripIndent (markdownGeneratedLines @ rest)"
    by (intro stripIndent_append disjI2)
  then have "markdownContent v moduleName lowerModuleName methods cm
               = (stripIndent head @ nl) @ markdownBanner @ stripIndent rest"
    by (simp only: markdownContent_def split stripIndent_generatedLines append_assoc)
  then show ?thesis
    unfolding sublist_def by blast
qed

lemma apiPagesContent_eq:
  "apiPagesContent modulesPages =
     nl @ scriptBanner @ nl @ ''    export const apiPages = ''
     @ serializeJSON [] [] (JArray (map pageJson modulesPages)) @ '';'' @ nl @ ''    ''"
  by (simp add: apiPagesContent_def scriptBanner_def)

lemma sublist_scriptBanner: "sublist scriptBanner (apiPagesContent modulesPages)"
  unfolding apiPagesContent_eq by (rule sublist_appendI)

text \<open>
  Claim C4. Every generated file is to carry a comment that says it is generated and
  names the command. The templates of the module page and of the manifest hold the two
  comment lines, whatever the module and the list of pages; the template of the data
  file, which the revision rendering ahead writes beside each page, holds none. Run on
  the sample project, that revision writes the page \<open>address.md\<close> with the comment lines
  and the manifest with the comment lines, and it writes the data file \<open>address.ts\<close> as
  an import line and the exported method list, with no comment of any kind in it: neither
  the word \<open>generated\<close> nor the command occurs, and no comment opener of TypeScript or
  of markdown.
\<close>

theorem data_file_without_generated_banner:
  "WriteFileSync (OutputFile ''address.md'')
       (markdownContent Prerendered ''Address'' ''address'' [] None)
     \<in> set (fst (build Prerendered sampleEnv (Some sampleProject)))
   \<and> sublist markdownBanner (markdownContent Prerendered ''Address'' ''address'' [] None)
   \<and> WriteFileSync DocsApiPages
         (apiPagesContent
            (sortPages sampleEnv
               (fixedPages @ map modulePage (ns_classes (hd (pr_namespaces sampleProject))))))
       \<in> set (fst (build Prerendered sampleEnv (Some sampleProject)))
   \<and> sublist scriptBanner
         (apiPagesContent
            (sortPages sampleEnv
               (fixedPages @ map modulePage (ns_classes (hd (pr_namespaces sampleProject))))))
   \<and> WriteFileSync (OutputFile ''address.ts'') (contentTs ''address'' [])
       \<in> set (fst (build Prerendered sampleEnv (Some sampleProject)))
   \<and> contentTs ''address'' []
       = nl @ ''    import type { Method } from '../.vitepress/components/api-docs/method';''
         @ nl @ nl @ ''    export const address: Method[] = []''
   \<and> \<not> sublist ''generated'' (contentTs ''address'' [])
   \<and> \<not> sublist scriptCommand (contentTs ''address'' [])
   \<and> \<not> sublist ''//'' (contentTs ''address'' [])
   \<and> \<not> sublist ''/*'' (contentTs ''address'' [])
   \<and> \<not> sublist ''<!--'' (contentTs ''address'' [])"
proof -
  have page: "WriteFileSync (OutputFile ''address.md'')
       (markdownContent Prerendered ''Address'' ''address'' [] None)
     \<in> set (fst (build Prerendered sampleEnv (Some sampleProject)))"
    by (simp add: build_def sampleProject_def sampleEnv_def documentModule_def Let_def
          lowerModuleNameOf_def moduleNameOf_def toLowerCase_def)
  have manifest: "WriteFileSync DocsApiPages
         (apiPagesContent
            (sortPages sampleEnv
               (fixedPages @ map modulePage (ns_classes (hd (pr_namespaces sampleProject))))))
       \<in> set (fst (build Prerendered sampleEnv (Some sampleProject)))"
    by (simp add: build_def sampleProject_def sampleEnv_def documentModule_def Let_def)
  have written: "WriteFileSync (OutputFile ''address.ts'') (contentTs ''address'' [])
     \<in> set (fst (build Prerendered sampleEnv (Some sampleProject)))"
    by (simp add: build_def sampleProject_def sampleEnv_def documentModule_def Let_def
          lowerModuleNameOf_def moduleNameOf_def toLowerCase_def)
  have content: "contentTs ''address'' []
      = nl @ ''    import type { Method } from '../.vitepress/components/api-docs/method';''
        @ nl @ nl @ ''    export const address: Method[] = []''"
    by (simp add: contentTs_def)
  have "\<not> sublist ''generated'' (contentTs ''address'' [])"
    unfolding content by code_simp
  moreover have "\<not> sublist scriptCommand (contentTs ''address'' [])"
    unfolding content scriptCommand_def by code_simp
  moreover have "\<not> sublist ''//'' (contentTs ''address'' [])"
    unfolding content by code_simp
  moreover have "\<not> sublist ''/*'' (contentTs ''address'' [])"
    unfolding content by code_simp
  moreover have "\<not> sublist ''<!--'' (contentTs ''address'' [])"
    unfolding content by code_simp
  ultimately show ?thesis
    using page manifest written content sublist_markdownBanner sublist_scriptBanner by simp
qed

subsection \<open>The manifest\<close>

lemma documentModules_pages:
  "documentModules v e mds = (evs, Inr pages) \<Longrightarrow> pages = map modulePage mds"
proof (induction mds arbitrary: evs pages)
  case Nil
  then show ?case by simp
next
  case (Cons md mds)
  obtain a b where ab: "documentModule v e md = (a, b)"
    by (cases "documentModule v e md")
  obtain a' b' where ab': "documentModules v e mds = (a', b')"
    by (cases "documentModules v e mds")
  from Cons.prems obtain pg pgs where b: "b = Inr pg" and b': "b' = Inr pgs"
    and pages: "pages = pg # pgs"
    by (cases b; cases b') (auto simp: ab ab')
  from ab b have "pg = modulePage md"
    by (auto simp: documentModule_def Let_def split: prod.splits sum.splits)
  moreover from Cons.IH ab' b' have "pgs = map modulePage mds" by simp
  ultimately show ?case using pages by simp
qed

lemma build_success:
  fixes e :: "('v, 'k::linorder) env"
  assumes "build v e (Some project) = (evs, Inr ())" and "pr_namespaces project = ns # others"
  shows "\<exists>evs'. evs = GenerateJson OutputJson # evs'
               @ [ConsoleLog ''Updating api-pages.mjs'',
                  WriteFileSync DocsApiPages
                    (prettierFormat e Babel
                       (apiPagesContent (sortPages e (fixedPages @ map modulePage (ns_classes ns)))))]"
proof -
  obtain a b where ab: "documentModules v e (ns_classes ns) = (a, b)"
    by (cases "documentModules v e (ns_classes ns)")
  from assms ab obtain pages where b: "b = Inr pages"
    by (cases b) (auto simp: build_def)
  from documentModules_pages ab b have "pages = map modulePage (ns_classes ns)" by blast
  with assms ab b show ?thesis by (auto simp: build_def)
qed

lemma fixed_first_iff:
  fixes k :: "page \<Rightarrow> 'k::linorder"
  shows "(take 2 (sort_key k (f # l # ms)) = [f, l])
           = (k f \<le> k l \<and> (\<forall>x \<in> set ms. k l \<le> k x))"
proof
  assume pinned: "take 2 (sort_key k (f # l # ms)) = [f, l]"
  then obtain others where eq: "sort_key k (f # l # ms) = f # l # others"
    by (metis append_take_drop_id append_Cons append_Nil)
  have "sorted (map k (sort_key k (f # l # ms)))" by (rule sorted_sort_key)
  with eq have le: "k f \<le> k l" "\<forall>x \<in> set others. k l \<le> k x" by simp_all
  have "mset (sort_key k (f # l # ms)) = mset (f # l # ms)" by (rule mset_sort)
  with eq have "mset others = mset ms" by simp
  then have "set others = set ms" by (rule mset_eq_setD)
  with le show "k f \<le> k l \<and> (\<forall>x \<in> set ms. k l \<le> k x)" by simp
next
  assume first: "k f \<le> k l \<and> (\<forall>x \<in> set ms. k l \<le> k x)"
  then have "insort_key k l (sort_key k ms) = l # sort_key k ms"
    by (intro insort_is_Cons) simp
  with first show "take 2 (sort_key k (f # l # ms)) = [f, l]" by simp
qed

text \<open>
  Claim C8. In a run that reaches its end, the last effect is the writing of the manifest,
  and the list it holds is the collected list (\<open>Fake\<close>, \<open>Localization\<close>, then one entry
  per module in the order of the modules) sorted by the collation key of the title: it is
  ordered, and it has the same entries. The two fixed entries are the first two of the
  sorted list exactly when \<open>Fake\<close> does not sort after \<open>Localization\<close> and \<open>Localization\<close>
  sorts after no module title; in every other case they stand among the module entries.
\<close>

theorem manifest_sorted_by_title:
  fixes e :: "('v, 'k::linorder) env"
  assumes "build v e (Some project) = (evs, Inr ())"
    and "pr_namespaces project = ns # others"
  shows "\<exists>pages.
           pages = sortPages e (fixedPages @ map modulePage (ns_classes ns))
         \<and> last evs = WriteFileSync DocsApiPages (prettierFormat e Babel (apiPagesContent pages))
         \<and> sorted (map (\<lambda>p. collationKey e (pg_text p)) pages)
         \<and> mset pages = mset fixedPages + mset (map modulePage (ns_classes ns))
         \<and> (take 2 pages = fixedPages)
             = (collationKey e ''Fake'' \<le> collationKey e ''Localization''
                \<and> (\<forall>md \<in> set (ns_classes ns).
                      collationKey e ''Localization'' \<le> collationKey e (moduleNameOf md)))"
proof -
  let ?k = "\<lambda>p. collationKey e (pg_text p)"
  let ?pages = "sortPages e (fixedPages @ map modulePage (ns_classes ns))"
  from build_success [OF assms] have "last evs
      = WriteFileSync DocsApiPages (prettierFormat e Babel (apiPagesContent ?pages))"
    by auto
  moreover have "sorted (map ?k ?pages)"
    unfolding sortPages_def by (rule sorted_sort_key)
  moreover have "mset ?pages = mset fixedPages + mset (map modulePage (ns_classes ns))"
    unfolding sortPages_def by simp
  moreover have "(take 2 ?pages = fixedPages)
             = (collationKey e ''Fake'' \<le> collationKey e ''Localization''
                \<and> (\<forall>md \<in> set (ns_classes ns).
                      collationKey e ''Localization'' \<le> collationKey e (moduleNameOf md)))"
    unfolding sortPages_def fixedPages_def
    by (simp add: fixed_first_iff modulePage_def del: sort_key_simps)
  ultimately show ?thesis by blast
qed

text \<open>The sample project has the modules \<open>Word\<close> and \<open>Address\<close>: the manifest lists
  \<open>Address\<close>, \<open>Fake\<close>, \<open>Localization\<close>, \<open>Word\<close>, and the fixed entries are not the first
  two.\<close>

theorem manifest_sorted_by_title_witness:
  "map pg_text
     (sortPages sampleEnv
        (fixedPages @ map modulePage (ns_classes (hd (pr_namespaces sampleProject)))))
     = [''Address'', ''Fake'', ''Localization'', ''Word'']
   \<and> take 2 (sortPages sampleEnv
               (fixedPages @ map modulePage (ns_classes (hd (pr_namespaces sampleProject)))))
       \<noteq> fixedPages"
proof -
  let ?ns = "\<lparr>ns_classes =
                [\<lparr>mod_name = ''Word'', mod_methods = [], mod_comment = None\<rparr>,
                 \<lparr>mod_name = ''Address'', mod_methods = [], mod_comment = None\<rparr>]\<rparr>"
  have run: "build Plain sampleEnv (Some sampleProject)
               = (fst (build Plain sampleEnv (Some sampleProject)), Inr ())"
    by (simp add: build_def sampleProject_def documentModule_def Let_def)
  have ns: "pr_namespaces sampleProject = ?ns # []"
    by (simp add: sampleProject_def)
  have titles: "map pg_text (sortPages sampleEnv (fixedPages @ map modulePage (ns_classes ?ns)))
                  = [''Address'', ''Fake'', ''Localization'', ''Word'']"
    by (simp add: sortPages_def sampleEnv_def fixedPages_def modulePage_def moduleNameOf_def)
  have "\<not> collationKey sampleEnv ''Localization''
            \<le> collationKey sampleEnv
                  (moduleNameOf \<lparr>mod_name = ''Address'', mod_methods = [], mod_comment = None\<rparr>)"
    by (simp add: sampleEnv_def moduleNameOf_def)
  with manifest_sorted_by_title [OF run ns]
  have "take 2 (sortPages sampleEnv (fixedPages @ map modulePage (ns_classes ?ns))) \<noteq> fixedPages"
    by auto
  with titles show ?thesis
    by (simp add: ns)
qed

end
